theory Spec2Isabelle
  imports Complex_Main "HOL-Library.Sublist" "HOL-Library.Log_Nat"
begin

section \<open>Python values\<close>

text \<open>
  The service in \<^verbatim>\<open>services/ai_service.py\<close> works on Python strings and on the values
  that \<^verbatim>\<open>json.loads\<close> produces. A string is a \<^typ>\<open>string\<close>; every character stands
  for the code point of the same number, so the texts covered are those whose code points lie
  below 256. Exceptions are values of the type \<open>error\<close>, and a function that may raise returns
  \<open>error + 'a\<close> with \<open>Inl\<close> for the raised exception. Every constructor of \<open>error\<close> is a
  subclass of Python's \<^verbatim>\<open>Exception\<close>; \<open>JSONDecodeError\<close> is in addition a subclass of
  \<open>ValueError\<close>. \<open>GeminiError msg\<close> is the plain \<^verbatim>\<open>Exception\<close> that
  \<^verbatim>\<open>_make_request\<close> raises, \<open>msg\<close> being the text of the original exception.
\<close>

datatype error =
    JSONDecodeError | ValueError | TypeError | AttributeError | OverflowError
  | IndexError | ZeroDivisionError | RecursionError | GeminiError string

text \<open>
  A Python float is an IEEE binary64 number: a finite one is represented by the rational it
  denotes (\<open>-0.0\<close> and \<open>0.0\<close> are both \<open>Finite 0\<close>).
\<close>

datatype pyfloat = Finite rat | PosInf | NegInf | NaN

text \<open>
  The result of \<^verbatim>\<open>json.loads\<close>: \<^verbatim>\<open>None\<close>, \<^verbatim>\<open>bool\<close>, \<^verbatim>\<open>int\<close>,
  \<^verbatim>\<open>float\<close>, \<^verbatim>\<open>str\<close>, \<^verbatim>\<open>list\<close> and \<^verbatim>\<open>dict\<close>. A dict is an association list
  that is read with \<^const>\<open>map_of\<close>.
\<close>

datatype json =
    JNull | JBool bool | JInt int | JFloat pyfloat | JStr string
  | JArr "json list" | JObj "(string \<times> json) list"

type_synonym pydict = "(string \<times> json) list"

type_synonym question = pydict

subsection \<open>String methods\<close>

text \<open>\<^verbatim>\<open>str.isspace\<close> on the code points below 256; \<^verbatim>\<open>\s\<close> of \<^verbatim>\<open>re\<close> is the same set.\<close>

definition isspace :: "char \<Rightarrow> bool" where
  "isspace c = (of_char c \<in> set [9, 10, 11, 12, 13, 28, 29, 30, 31, 32, 133, 160 :: nat])"

definition lstrip :: "string \<Rightarrow> string" where
  "lstrip s = dropWhile isspace s"

definition rstrip :: "string \<Rightarrow> string" where
  "rstrip s = rev (dropWhile isspace (rev s))"

text \<open>\<^verbatim>\<open>s.strip()\<close>\<close>

definition strip :: "string \<Rightarrow> string" where
  "strip s = rstrip (lstrip s)"

text \<open>\<^verbatim>\<open>s.strip(chars)\<close>\<close>

definition strip_chars :: "string \<Rightarrow> string \<Rightarrow> string" where
  "strip_chars chars s =
     rev (dropWhile (\<lambda>c. c \<in> set chars) (rev (dropWhile (\<lambda>c. c \<in> set chars) s)))"

text \<open>
  \<^verbatim>\<open>s.lower()\<close>: below 256 the letters with a lower-case form are \<open>A\<close> to \<open>Z\<close> and the
  code points 192 to 222 without 215, and the lower-case form is 32 further on.
\<close>

definition lower_char :: "char \<Rightarrow> char" where
  "lower_char c =
     (let n = (of_char c :: nat)
      in if (65 \<le> n \<and> n \<le> 90) \<or> (192 \<le> n \<and> n \<le> 222 \<and> n \<noteq> 215)
         then char_of (n + 32) else c)"

definition lower :: "string \<Rightarrow> string" where
  "lower s = map lower_char s"

text \<open>\<^verbatim>\<open>s.find(c)\<close> and \<^verbatim>\<open>s.rfind(c)\<close> for one character; \<open>None\<close> is Python's \<open>-1\<close>.\<close>

definition py_find :: "char \<Rightarrow> string \<Rightarrow> nat option" where
  "py_find c s = (if c \<in> set s then Some (length (takeWhile (\<lambda>x. x \<noteq> c) s)) else None)"

definition py_rfind :: "char \<Rightarrow> string \<Rightarrow> nat option" where
  "py_rfind c s =
     (if c \<in> set s then Some (length s - 1 - length (takeWhile (\<lambda>x. x \<noteq> c) (rev s)))
      else None)"

text \<open>\<^verbatim>\<open>s.split()\<close>: the maximal runs of characters that are not white space.\<close>

fun split_from :: "string \<Rightarrow> string \<Rightarrow> string list" where
  "split_from cur [] = (if cur = [] then [] else [rev cur])"
| "split_from cur (c # cs) =
     (if isspace c then (if cur = [] then split_from [] cs else rev cur # split_from [] cs)
      else split_from (c # cur) cs)"

definition split_ws :: "string \<Rightarrow> string list" where
  "split_ws s = split_from [] s"

text \<open>\<^verbatim>\<open>" ".join(words)\<close>\<close>

fun join_sp :: "string list \<Rightarrow> string" where
  "join_sp [] = []"
| "join_sp [w] = w"
| "join_sp (w # v # ws) = w @ CHR '' '' # join_sp (v # ws)"

subsection \<open>Built-in conversions\<close>

text \<open>Truth value of a value, as \<^verbatim>\<open>not v\<close> tests it.\<close>

fun truthy :: "json \<Rightarrow> bool" where
  "truthy JNull = False"
| "truthy (JBool b) = b"
| "truthy (JInt n) = (n \<noteq> 0)"
| "truthy (JFloat f) = (f \<noteq> Finite 0)"
| "truthy (JStr s) = (s \<noteq> [])"
| "truthy (JArr xs) = (xs \<noteq> [])"
| "truthy (JObj kvs) = (kvs \<noteq> [])"

text \<open>
  \<^verbatim>\<open>len(str(opt).strip()) <= 2\<close>. The text of a string is the string; of an int its decimal
  numeral, which has at most two characters from \<open>-9\<close> to \<open>99\<close>; of an empty list or dict
  \<^verbatim>\<open>[]\<close> or \<^verbatim>\<open>{}\<close>, and longer when there is an element; of a float at least three
  characters (\<^verbatim>\<open>1.0\<close>, \<^verbatim>\<open>nan\<close>, \<^verbatim>\<open>inf\<close>); of the others \<^verbatim>\<open>None\<close>, \<^verbatim>\<open>True\<close>,
  \<^verbatim>\<open>False\<close>.
\<close>

fun short_text :: "json \<Rightarrow> bool" where
  "short_text (JStr s) = (length (strip s) \<le> 2)"
| "short_text (JInt n) = (- 9 \<le> n \<and> n \<le> 99)"
| "short_text (JArr xs) = (xs = [])"
| "short_text (JObj kvs) = (kvs = [])"
| "short_text JNull = False"
| "short_text (JBool b) = False"
| "short_text (JFloat f) = False"

text \<open>
  \<^verbatim>\<open>int(s)\<close> for a string: white space is removed at both ends (for \<^verbatim>\<open>int\<close> the code
  points 28 to 31 are not white space), then comes an optional sign and decimal digits, where
  single underscores may stand between two digits. The interpreter's limit on the number of
  digits (4300 by default since Python 3.11) is not modelled.
\<close>

definition int_space :: "char \<Rightarrow> bool" where
  "int_space c = (of_char c \<in> set [9, 10, 11, 12, 13, 32, 133, 160 :: nat])"

definition is_digit :: "char \<Rightarrow> bool" where
  "is_digit c = (48 \<le> (of_char c :: nat) \<and> (of_char c :: nat) \<le> 57)"

fun int_digits :: "bool \<Rightarrow> int \<Rightarrow> string \<Rightarrow> int option" where
  "int_digits prev acc [] = (if prev then Some acc else None)"
| "int_digits prev acc (c # cs) =
     (if is_digit c then int_digits True (10 * acc + (of_char c - 48)) cs
      else if c = CHR ''_'' \<and> prev \<and> cs \<noteq> [] then int_digits False acc cs
      else None)"

definition int_of_str :: "string \<Rightarrow> error + int" where
  "int_of_str s =
     (case rev (dropWhile int_space (rev (dropWhile int_space s))) of
        [] \<Rightarrow> Inl ValueError
      | c # cs \<Rightarrow>
          if c = CHR ''-'' then
            (case int_digits False 0 cs of None \<Rightarrow> Inl ValueError | Some n \<Rightarrow> Inr (- n))
          else if c = CHR ''+'' then
            (case int_digits False 0 cs of None \<Rightarrow> Inl ValueError | Some n \<Rightarrow> Inr n)
          else
            (case int_digits False 0 (c # cs) of None \<Rightarrow> Inl ValueError | Some n \<Rightarrow> Inr n))"

text \<open>\<^verbatim>\<open>int(v)\<close>: a float is cut towards zero.\<close>

fun py_int :: "json \<Rightarrow> error + int" where
  "py_int JNull = Inl TypeError"
| "py_int (JBool b) = Inr (if b then 1 else 0)"
| "py_int (JInt n) = Inr n"
| "py_int (JFloat (Finite r)) = Inr (if 0 \<le> r then \<lfloor>r\<rfloor> else \<lceil>r\<rceil>)"
| "py_int (JFloat NaN) = Inl ValueError"
| "py_int (JFloat PosInf) = Inl OverflowError"
| "py_int (JFloat NegInf) = Inl OverflowError"
| "py_int (JStr s) = int_of_str s"
| "py_int (JArr xs) = Inl TypeError"
| "py_int (JObj kvs) = Inl TypeError"

text \<open>
  \<^verbatim>\<open>xs[i]\<close> on a list: the indices from \<open>0\<close> count from the front, the negative ones
  from the end, and any other index raises.
\<close>

definition py_index :: "'a list \<Rightarrow> int \<Rightarrow> error + 'a" where
  "py_index xs i =
     (if 0 \<le> i \<and> i < int (length xs) then Inr (xs ! nat i)
      else if i < 0 \<and> - int (length xs) \<le> i then Inr (xs ! nat (int (length xs) + i))
      else Inl IndexError)"

text \<open>\<^verbatim>\<open>d.get(k, default)\<close>\<close>

definition dict_get :: "pydict \<Rightarrow> string \<Rightarrow> json \<Rightarrow> json" where
  "dict_get d k dflt = (case map_of d k of Some v \<Rightarrow> v | None \<Rightarrow> dflt)"

section \<open>The validator\<close>

definition low_quality_patterns :: "string list" where
  "low_quality_patterns =
     [''abbreviation for'', ''acronym for'', ''what does the word'',
      ''spell '', ''how do you spell'', ''define the word'',
      ''synonym for'', ''antonym for'',
      ''q1'', ''q2'', ''q3'', ''q4'', ''q5'', ''question text'', ''your question'']"

text \<open>
  \<^verbatim>\<open>_validate_question\<close>. A question that is present and true but not a string has no
  \<^verbatim>\<open>strip\<close> method, so the call raises \<open>AttributeError\<close>; \<^verbatim>\<open>int\<close> raises
  \<open>OverflowError\<close> on an infinite float, which the handler for \<open>ValueError\<close> and
  \<open>TypeError\<close> does not catch.
\<close>

definition validate_index :: "json \<Rightarrow> error + bool" where
  "validate_index correct_idx =
     (case py_int correct_idx of
        Inr idx \<Rightarrow> if idx < 0 \<or> idx > 3 then Inr False else Inr True
      | Inl e \<Rightarrow>
          if e = ValueError \<or> e = JSONDecodeError \<or> e = TypeError then Inr False else Inl e)"

definition validate_question :: "question \<Rightarrow> error + bool" where
  "validate_question question =
     (case map_of question ''question'' of
        None \<Rightarrow> Inr False
      | Some qv \<Rightarrow>
          if \<not> truthy qv then Inr False
          else (case qv of
            JStr s \<Rightarrow>
              (let q_text = strip s in
               if length q_text < 15 then Inr False
               else if list_ex (\<lambda>pattern. sublist pattern (lower q_text)) low_quality_patterns
               then Inr False
               else (case map_of question ''options'' of
                  None \<Rightarrow> Inr False
                | Some (JArr options) \<Rightarrow>
                    if length options \<noteq> 4 then Inr False
                    else if list_all short_text options then Inr False
                    else (case (case map_of question ''correct_index'' of
                                  Some v \<Rightarrow> Some v
                                | None \<Rightarrow> map_of question ''correctIndex'') of
                        None \<Rightarrow> Inr False
                      | Some JNull \<Rightarrow> Inr False
                      | Some correct_idx \<Rightarrow> validate_index correct_idx)
                | Some _ \<Rightarrow> Inr False))
          | _ \<Rightarrow> Inl AttributeError))"

section \<open>The parser\<close>

text \<open>
  \<^verbatim>\<open>json.loads\<close> belongs to the Python library, not to this program: it is a parameter
  \<open>loads\<close> of the parser, which returns the parsed value or the exception raised
  (\<open>JSONDecodeError\<close> for text that is not JSON).
\<close>

type_synonym loader = "string \<Rightarrow> error + json"

text \<open>
  \<^verbatim>\<open>normalize_questions\<close>: the loop over \<^verbatim>\<open>enumerate(questions_list)\<close>, \<open>i\<close> being the
  index of the element at the head.
\<close>

definition normalize_one :: "nat \<Rightarrow> pydict \<Rightarrow> question" where
  "normalize_one i q =
     [(''id'', dict_get q ''id'' (JInt (int i + 1))),
      (''question'', dict_get q ''question'' (JStr [])),
      (''options'', dict_get q ''options'' (JArr [])),
      (''correct_index'', dict_get q ''correct_index'' (dict_get q ''correctIndex'' (JInt 0)))]"

fun normalize_from :: "nat \<Rightarrow> json list \<Rightarrow> question list" where
  "normalize_from i [] = []"
| "normalize_from i (JObj q # rest) = normalize_one i q # normalize_from (Suc i) rest"
| "normalize_from i (other # rest) = normalize_from (Suc i) rest"

text \<open>
  The argument need not be a list: iterating over a string gives its characters and over a
  dict its keys, none of which is a dict, and the other values are not iterable.
\<close>

fun normalize_questions :: "json \<Rightarrow> error + question list" where
  "normalize_questions (JArr xs) = Inr (normalize_from 0 xs)"
| "normalize_questions (JStr s) = Inr []"
| "normalize_questions (JObj kvs) = Inr []"
| "normalize_questions other = Inl TypeError"

text \<open>
  The four regular expressions of \<^verbatim>\<open>json_patterns\<close>, and what \<^verbatim>\<open>re.findall\<close> returns for
  each. \<open>split_first pat s\<close> cuts \<open>s\<close> at the leftmost occurrence of \<open>pat\<close>.
\<close>

datatype pattern = FencedJson | FencedAny | Bracketed | Braced

definition json_patterns :: "pattern list" where
  "json_patterns = [FencedJson, FencedAny, Bracketed, Braced]"

fun split_first :: "string \<Rightarrow> string \<Rightarrow> (string \<times> string) option" where
  "split_first pat [] = (if pat = [] then Some ([], []) else None)"
| "split_first pat (c # cs) =
     (if prefix pat (c # cs) then Some ([], drop (length pat) (c # cs))
      else (case split_first pat cs of
              None \<Rightarrow> None
            | Some (before, after) \<Rightarrow> Some (c # before, after)))"

lemma split_first_length:
  "split_first pat s = Some (before, after) \<Longrightarrow> length after + length pat \<le> length s"
proof (induction s arbitrary: before)
  case Nil
  then show ?case by (simp split: if_splits)
next
  case (Cons c cs)
  show ?case
  proof (cases "prefix pat (c # cs)")
    case True
    then have "length pat \<le> length (c # cs)" by (rule prefix_length_le)
    with True Cons.prems show ?thesis by auto
  next
    case False
    with Cons.prems obtain b where "split_first pat cs = Some (b, after)"
      by (auto split: option.splits)
    from Cons.IH [OF this] show ?thesis by simp
  qed
qed

text \<open>
  A fence, white space, the shortest text up to white space and the next \<^verbatim>\<open>```\<close>; the
  group is the text between the two runs of white space. The search goes on behind the
  closing fence.
\<close>

function findall_fenced :: "string \<Rightarrow> string \<Rightarrow> string list" where
  "findall_fenced fence text =
     (case split_first fence text of
        None \<Rightarrow> []
      | Some (before, rest) \<Rightarrow>
          (case split_first ''```'' (lstrip rest) of
             None \<Rightarrow> []
           | Some (body, rest') \<Rightarrow> rstrip body # findall_fenced fence rest'))"
  by pat_completeness auto
termination
proof (relation "measure (\<lambda>(fence, text). length text)")
  show "wf (measure (\<lambda>(fence, text). length text))" by simp
next
  fix fence s :: string and x2 before rest x2a body rest'
  assume a: "split_first fence s = Some x2" "(before, rest) = x2"
    "split_first ''```'' (lstrip rest) = Some x2a" "(body, rest') = x2a"
  from a(1,2) have "length rest \<le> length s"
    using split_first_length [of fence s before rest] by simp
  moreover from a(3,4) have "length rest' + 3 \<le> length (lstrip rest)"
    using split_first_length [of "''```''" "lstrip rest" body rest'] by simp
  moreover have "length (lstrip rest) \<le> length rest"
    by (simp add: lstrip_def length_dropWhile_le)
  ultimately show "((fence, rest'), (fence, s)) \<in> measure (\<lambda>(fence, text). length text)"
    by simp
qed

text \<open>From the first opening character to the last closing one, when that comes later.\<close>

definition findall_span :: "char \<Rightarrow> char \<Rightarrow> string \<Rightarrow> string list" where
  "findall_span opn cls text =
     (case py_find opn text of
        None \<Rightarrow> []
      | Some i \<Rightarrow>
          (case py_rfind cls text of
             None \<Rightarrow> []
           | Some j \<Rightarrow> if i < j then [take (j + 1 - i) (drop i text)] else []))"

fun re_findall :: "pattern \<Rightarrow> string \<Rightarrow> string list" where
  "re_findall FencedJson text = findall_fenced ''```json'' text"
| "re_findall FencedAny text = findall_fenced ''```'' text"
| "re_findall Bracketed text = findall_span CHR ''['' CHR '']'' text"
| "re_findall Braced text = findall_span CHR ''{'' CHR ''}'' text"

text \<open>
  The body of the loop over the matches of a pattern: \<open>Inr None\<close> when the loop goes on to
  the next match, \<open>Inr (Some qs)\<close> for \<^verbatim>\<open>return {"questions": qs}\<close>.
\<close>

definition returning :: "error + question list \<Rightarrow> error + question list option" where
  "returning r = (case r of Inl e \<Rightarrow> Inl e | Inr qs \<Rightarrow> Inr (Some qs))"

definition try_match :: "loader \<Rightarrow> string \<Rightarrow> error + question list option" where
  "try_match loads m =
     (let clean_match = strip m in
      if prefix ''['' clean_match then
        (let clean_match =
           (case py_rfind CHR '']'' clean_match of
              None \<Rightarrow> clean_match
            | Some last_bracket \<Rightarrow> take (last_bracket + 1) clean_match)
         in case loads clean_match of
              Inl e \<Rightarrow> if e = JSONDecodeError then Inr None else Inl e
            | Inr parsed \<Rightarrow>
                (case parsed of
                   JArr xs \<Rightarrow> if xs \<noteq> [] then returning (normalize_questions parsed) else Inr None
                 | _ \<Rightarrow> Inr None))
      else
        (let clean_match =
           (if prefix ''{'' clean_match then clean_match
            else (case py_find CHR ''{'' clean_match of
                    None \<Rightarrow> clean_match
                  | Some json_start \<Rightarrow> drop json_start clean_match));
             clean_match =
           (case py_rfind CHR ''}'' clean_match of
              None \<Rightarrow> clean_match
            | Some last_brace \<Rightarrow> take (last_brace + 1) clean_match)
         in case loads clean_match of
              Inl e \<Rightarrow> if e = JSONDecodeError then Inr None else Inl e
            | Inr parsed \<Rightarrow>
                (case parsed of
                   JObj kvs \<Rightarrow>
                     (case map_of kvs ''questions'' of
                        Some qs \<Rightarrow> returning (normalize_questions qs)
                      | None \<Rightarrow> Inr None)
                 | _ \<Rightarrow> Inr None)))"

fun try_matches :: "loader \<Rightarrow> string list \<Rightarrow> error + question list option" where
  "try_matches loads [] = Inr None"
| "try_matches loads (m # ms) =
     (case try_match loads m of
        Inr None \<Rightarrow> try_matches loads ms
      | r \<Rightarrow> r)"

fun try_patterns :: "loader \<Rightarrow> string \<Rightarrow> pattern list \<Rightarrow> error + question list option" where
  "try_patterns loads text [] = Inr None"
| "try_patterns loads text (p # ps) =
     (case try_matches loads (re_findall p text) of
        Inr None \<Rightarrow> try_patterns loads text ps
      | r \<Rightarrow> r)"

text \<open>
  \<^verbatim>\<open>_extract_json\<close>: \<open>Inr None\<close> is the return value \<^verbatim>\<open>None\<close>, \<open>Inr (Some qs)\<close> the dict
  \<^verbatim>\<open>{"questions": qs}\<close>. Only \<open>JSONDecodeError\<close> is caught.
\<close>

definition extract_json :: "loader \<Rightarrow> string \<Rightarrow> error + question list option" where
  "extract_json loads text =
     (case loads (strip text) of
        Inl e \<Rightarrow> if e = JSONDecodeError then try_patterns loads text json_patterns else Inl e
      | Inr parsed \<Rightarrow>
          (case parsed of
             JArr xs \<Rightarrow>
               if xs \<noteq> [] then returning (normalize_questions parsed)
               else try_patterns loads text json_patterns
           | JObj kvs \<Rightarrow>
               (case map_of kvs ''questions'' of
                  Some qs \<Rightarrow> returning (normalize_questions qs)
                | None \<Rightarrow> try_patterns loads text json_patterns)
           | _ \<Rightarrow> try_patterns loads text json_patterns))"

section \<open>The fallback generator\<close>

text \<open>
  One entry of the banks below: the dict
  \<^verbatim>\<open>{"question": ..., "options": [...], "correct_index": ...}\<close>.
\<close>

definition bank_entry :: "string \<Rightarrow> string list \<Rightarrow> int \<Rightarrow> pydict" where
  "bank_entry q opts ci =
     [(''question'', JStr q), (''options'', JArr (map JStr opts)), (''correct_index'', JInt ci)]"

text \<open>The dict \<^verbatim>\<open>fallback_questions\<close> of \<^verbatim>\<open>_generate_fallback_question\<close>.\<close>

definition fallback_questions :: "(string \<times> pydict list) list" where
  "fallback_questions =
    [(''Wellness'',
      [bank_entry (''Which of these is recommended for better sleep?'')
        [''Caffeine before bed'', ''Regular sleep schedule'', ''Screen time'', ''Heavy meals''] 1,
       bank_entry (''What is mindfulness?'')
        [''Sleeping more'', ''Present moment awareness'', ''Multitasking'', ''Speed reading''] 1,
       bank_entry (''How much water should adults drink daily?'')
        [''1 cup'', ''8 cups'', ''20 cups'', ''No water needed''] 1,
       bank_entry (''Which activity reduces stress?'')
        [''Meditation'', ''Overworking'', ''Skipping meals'', ''Isolation''] 0,
       bank_entry (''What'' @ [CHR 0x27] @ ''s a benefit of regular exercise?'')
        [''Fatigue'', ''Better mood'', ''Weight gain'', ''Insomnia''] 1]),
     (''Tech Trends'',
      [bank_entry (''What does AI stand for?'')
        [''Artificial Intelligence'', ''Automated Internet'', ''Advanced Integration'', ''Auto Interface''] 0,
       bank_entry (''What is cloud computing?'')
        [''Weather prediction'', ''Remote data storage and processing'', ''Airplane technology'', ''Photography''] 1,
       bank_entry (''What is blockchain?'')
        [''A game'', ''Distributed ledger technology'', ''Social media'', ''Email service''] 1,
       bank_entry (''What does IoT mean?'')
        [''Internet of Things'', ''Input of Text'', ''Internal Operations'', ''Image Optimization''] 0,
       bank_entry (''What is machine learning?'')
        [''Robot building'', ''AI learning from data'', ''Computer repair'', ''Typing practice''] 1]),
     (''Space Exploration'',
      [bank_entry (''Which planet is known as the Red Planet?'')
        [''Venus'', ''Mars'', ''Jupiter'', ''Saturn''] 1,
       bank_entry (''What is the closest star to Earth?'')
        [''Polaris'', ''Sirius'', ''The Sun'', ''Alpha Centauri''] 2,
       bank_entry (''Who was the first human in space?'')
        [''Neil Armstrong'', ''Yuri Gagarin'', ''Buzz Aldrin'', ''John Glenn''] 1,
       bank_entry (''What is a light-year?'')
        [''Time unit'', ''Distance unit'', ''Speed unit'', ''Weight unit''] 1,
       bank_entry (''Which planet has the most moons?'')
        [''Earth'', ''Mars'', ''Saturn'', ''Mercury''] 2]),
     (''World History'',
      [bank_entry (''In which year did World War II end?'')
        [''1943'', ''1945'', ''1947'', ''1950''] 1,
       bank_entry (''Who was the first President of the United States?'')
        [''Abraham Lincoln'', ''Thomas Jefferson'', ''George Washington'', ''John Adams''] 2,
       bank_entry (''Which ancient wonder was located in Egypt?'')
        [''Colossus of Rhodes'', ''Great Pyramid of Giza'', ''Hanging Gardens'', ''Temple of Artemis''] 1,
       bank_entry (''The Renaissance began in which country?'')
        [''France'', ''England'', ''Italy'', ''Spain''] 2,
       bank_entry (''Who discovered America in 1492?'')
        [''Vasco da Gama'', ''Ferdinand Magellan'', ''Christopher Columbus'', ''Amerigo Vespucci''] 2]),
     (''Science & Nature'',
      [bank_entry (''What is the chemical symbol for water?'')
        [''O2'', ''H2O'', ''CO2'', ''NaCl''] 1,
       bank_entry (''What is the largest organ in the human body?'')
        [''Heart'', ''Liver'', ''Skin'', ''Brain''] 2,
       bank_entry (''What gas do plants absorb from the air?'')
        [''Oxygen'', ''Nitrogen'', ''Carbon Dioxide'', ''Hydrogen''] 2,
       bank_entry (''What is the hardest natural substance?'')
        [''Gold'', ''Iron'', ''Diamond'', ''Platinum''] 2,
       bank_entry (''How many bones are in the adult human body?'')
        [''106'', ''206'', ''306'', ''406''] 1]),
     (''Pop Culture'',
      [bank_entry (''Which band performed '' @ [CHR 0x27] @ ''Bohemian Rhapsody'' @ [CHR 0x27] @ ''?'')
        [''The Beatles'', ''Queen'', ''Led Zeppelin'', ''Pink Floyd''] 1,
       bank_entry (''What year was the first iPhone released?'')
        [''2005'', ''2007'', ''2009'', ''2010''] 1,
       bank_entry (''Who directed the movie '' @ [CHR 0x27] @ ''Titanic'' @ [CHR 0x27] @ ''?'')
        [''Steven Spielberg'', ''James Cameron'', ''Christopher Nolan'', ''Martin Scorsese''] 1,
       bank_entry (''Which streaming platform produces '' @ [CHR 0x27] @ ''Stranger Things'' @ [CHR 0x27] @ ''?'')
        [''Amazon Prime'', ''Hulu'', ''Netflix'', ''Disney+''] 2,
       bank_entry (''What social media app is known for short videos?'')
        [''Facebook'', ''Twitter'', ''TikTok'', ''LinkedIn''] 2])]"

text \<open>The list \<^verbatim>\<open>default_questions\<close>, whose texts contain the topic.\<close>

definition default_questions :: "string \<Rightarrow> pydict list" where
  "default_questions topic =
     [bank_entry (''What is a key aspect of '' @ topic @ ''?'')
        [''Knowledge'', ''Ignorance'', ''Confusion'', ''None''] 0,
      bank_entry (''Why is '' @ topic @ '' important?'')
        [''Personal growth'', ''No reason'', ''Waste of time'', ''Harmful''] 0,
      bank_entry (''How can one learn about '' @ topic @ ''?'')
        [''Reading and practice'', ''Sleeping'', ''Ignoring it'', ''Running away''] 0,
      bank_entry (''What skill helps in '' @ topic @ ''?'')
        [''Critical thinking'', ''Laziness'', ''Procrastination'', ''Denial''] 0,
      bank_entry (''Who can benefit from '' @ topic @ ''?'')
        [''Everyone'', ''No one'', ''Only experts'', ''Only children''] 0]"

text \<open>
  \<^verbatim>\<open>_generate_fallback_question\<close>: \<^verbatim>\<open>fallback_questions.get(topic, default_questions)\<close>,
  the index \<^verbatim>\<open>(question_id - 1) % len(topic_questions)\<close>, and the entry with the key
  \<^verbatim>\<open>id\<close> put in front.
\<close>

definition topic_questions_of :: "string \<Rightarrow> pydict list" where
  "topic_questions_of topic =
     (case map_of fallback_questions topic of
        Some qs \<Rightarrow> qs
      | None \<Rightarrow> default_questions topic)"

definition generate_fallback_question :: "string \<Rightarrow> int \<Rightarrow> error + question" where
  "generate_fallback_question topic question_id =
     (let topic_questions = topic_questions_of topic in
      if length topic_questions = 0 then Inl ZeroDivisionError
      else (case py_index topic_questions ((question_id - 1) mod int (length topic_questions)) of
              Inl e \<Rightarrow> Inl e
            | Inr entry \<Rightarrow> Inr ((''id'', JInt question_id) # entry)))"

text \<open>A list comprehension whose element may raise: the first exception ends it.\<close>

fun collect :: "(error + 'a) list \<Rightarrow> error + 'a list" where
  "collect [] = Inr []"
| "collect (x # xs) =
     (case x of
        Inl e \<Rightarrow> Inl e
      | Inr v \<Rightarrow> (case collect xs of Inl e \<Rightarrow> Inl e | Inr vs \<Rightarrow> Inr (v # vs)))"

text \<open>\<^verbatim>\<open>_generate_fallback_questions\<close>, over \<^verbatim>\<open>range(1, 6)\<close>.\<close>

definition generate_fallback_questions :: "string \<Rightarrow> error + question list" where
  "generate_fallback_questions topic =
     collect (map (generate_fallback_question topic) [1, 2, 3, 4, 5])"

section \<open>The orchestrator\<close>

text \<open>
  The call \<^verbatim>\<open>self.model.generate_content\<close> is the outside world: it raises, or it returns
  a response with a text, which may be empty. Within one call of \<^verbatim>\<open>generate_quiz\<close> the
  prompt is the same for every request, so the outside world is a function \<open>transport\<close> from
  the number of the attempt to what the request of that attempt does. What the call does to
  the outside world is a list of effects: the requests made and the seconds slept. The debug
  log is left out.
\<close>

datatype response = Raises string | Text string

datatype effect = Request nat | Sleep nat

definition max_retries :: nat where
  "max_retries = 3"

definition retry_delay :: nat where
  "retry_delay = 2"

text \<open>\<^verbatim>\<open>_make_request\<close>: \<open>Inr None\<close> is the return value \<^verbatim>\<open>None\<close>.\<close>

definition make_request :: "response \<Rightarrow> error + string option" where
  "make_request r =
     (case r of
        Raises msg \<Rightarrow> Inl (GeminiError msg)
      | Text t \<Rightarrow> if t \<noteq> [] then Inr (Some t) else Inr None)"

text \<open>The loop that fills \<^verbatim>\<open>valid_questions\<close>; an exception of the validator ends it.\<close>

fun valid_questions_of :: "question list \<Rightarrow> error + question list" where
  "valid_questions_of [] = Inr []"
| "valid_questions_of (q # qs) =
     (case validate_question q of
        Inl e \<Rightarrow> Inl e
      | Inr ok \<Rightarrow>
          (case valid_questions_of qs of
             Inl e \<Rightarrow> Inl e
           | Inr vs \<Rightarrow> Inr (if ok then q # vs else vs)))"

text \<open>\<^verbatim>\<open>while len(valid_questions) < 5: valid_questions.append(...)\<close>\<close>

function pad_questions :: "string \<Rightarrow> question list \<Rightarrow> error + question list" where
  "pad_questions topic valid_questions =
     (if length valid_questions < 5 then
        (case generate_fallback_question topic (int (length valid_questions) + 1) of
           Inl e \<Rightarrow> Inl e
         | Inr fallback \<Rightarrow> pad_questions topic (valid_questions @ [fallback]))
      else Inr valid_questions)"
  by pat_completeness auto
termination
  by (relation "measure (\<lambda>(topic, valid_questions). 5 - length valid_questions)") auto

declare pad_questions.simps [simp del]

text \<open>
  The body of the \<^verbatim>\<open>try\<close> statement of one attempt: \<open>Inr (Some qs)\<close> when it returns
  \<open>qs\<close> from \<^verbatim>\<open>generate_quiz\<close>, \<open>Inr None\<close> when it runs to its end, \<open>Inl e\<close> when it
  raises \<open>e\<close>.
\<close>

definition attempt_body :: "loader \<Rightarrow> string \<Rightarrow> response \<Rightarrow> error + question list option" where
  "attempt_body loads topic r =
     (case make_request r of
        Inl e \<Rightarrow> Inl e
      | Inr None \<Rightarrow> Inr None
      | Inr (Some response) \<Rightarrow>
          (case extract_json loads response of
             Inl e \<Rightarrow> Inl e
           | Inr None \<Rightarrow> Inr None
           | Inr (Some questions) \<Rightarrow>
               (case valid_questions_of (take 5 questions) of
                  Inl e \<Rightarrow> Inl e
                | Inr valid_questions \<Rightarrow>
                    if length valid_questions \<ge> 3 then
                      (case pad_questions topic valid_questions of
                         Inl e \<Rightarrow> Inl e
                       | Inr padded \<Rightarrow> Inr (Some (take 5 padded)))
                    else Inr None)))"

text \<open>
  The loop \<^verbatim>\<open>for attempt in range(self.max_retries)\<close> from \<open>attempt\<close> on, and the
  statements behind it. \<^verbatim>\<open>except Exception\<close> catches every \<open>error\<close>.
\<close>

function quiz_loop ::
  "loader \<Rightarrow> (nat \<Rightarrow> response) \<Rightarrow> string \<Rightarrow> nat \<Rightarrow> (error + question list) \<times> effect list"
where
  "quiz_loop loads transport topic attempt =
     (if attempt < max_retries then
        (case attempt_body loads topic (transport attempt) of
           Inr (Some result) \<Rightarrow> (Inr result, [Request attempt])
         | other \<Rightarrow>
             (let (result, effects) = quiz_loop loads transport topic (attempt + 1)
              in (result,
                  Request attempt
                    # (if attempt < max_retries - 1 then [Sleep retry_delay] else [])
                    @ effects)))
      else (generate_fallback_questions topic, []))"
  by pat_completeness auto
termination
  by (relation "measure (\<lambda>(loads, transport, topic, attempt). max_retries - attempt)") auto

declare quiz_loop.simps [simp del]

definition generate_quiz ::
  "loader \<Rightarrow> (nat \<Rightarrow> response) \<Rightarrow> string \<Rightarrow> (error + question list) \<times> effect list"
where
  "generate_quiz loads transport topic = quiz_loop loads transport topic 0"

section \<open>The feedback generator\<close>

text \<open>
  \<^verbatim>\<open>score / total\<close> on ints is the binary64 number nearest to the quotient, with
  \<open>OverflowError\<close> when that exceeds the range of the floats, and the product with
  \<^verbatim>\<open>100\<close> is rounded in the same way, to an infinity beyond the range. \<open>round64\<close> rounds
  a rational to the nearest binary64 number, a tie to the even one: \<open>ilog2 x\<close> is the exponent
  of \<open>x\<close>, found from the numbers of binary digits of its numerator and its denominator,
  and the numbers near \<open>x\<close> are the multiples of \<open>pow2 (max (ilog2 x) (- 1022) - 52)\<close>.
\<close>

definition pow2 :: "int \<Rightarrow> rat" where
  "pow2 k = (if 0 \<le> k then 2 ^ nat k else 1 / 2 ^ nat (- k))"

definition ilog2 :: "rat \<Rightarrow> int" where
  "ilog2 x =
     (let (p, q) = quotient_of x;
          d = bitlen p - bitlen q
      in if pow2 d \<le> x then d else d - 1)"

definition round_half_even :: "rat \<Rightarrow> int" where
  "round_half_even m =
     (let f = \<lfloor>m\<rfloor>; r = m - of_int f
      in if r < 1 / 2 then f else if 1 / 2 < r then f + 1 else if even f then f else f + 1)"

definition round64 :: "rat \<Rightarrow> rat" where
  "round64 x =
     (if x = 0 then 0
      else (let quantum = pow2 (max (ilog2 \<bar>x\<bar>) (- 1022) - 52)
            in of_int (round_half_even (x / quantum)) * quantum))"

definition py_truediv :: "int \<Rightarrow> int \<Rightarrow> error + pyfloat" where
  "py_truediv a b =
     (if b = 0 then Inl ZeroDivisionError
      else (let r = round64 (of_int a / of_int b)
            in if pow2 1024 \<le> \<bar>r\<bar> then Inl OverflowError else Inr (Finite r)))"

definition times_100 :: "pyfloat \<Rightarrow> pyfloat" where
  "times_100 x =
     (case x of
        Finite v \<Rightarrow>
          (let r = round64 (v * 100)
           in if pow2 1024 \<le> r then PosInf else if r \<le> - pow2 1024 then NegInf else Finite r)
      | other \<Rightarrow> other)"

text \<open>\<^verbatim>\<open>x >= n\<close> for a float and an int.\<close>

definition float_ge :: "pyfloat \<Rightarrow> int \<Rightarrow> bool" where
  "float_ge x n = (case x of Finite v \<Rightarrow> of_int n \<le> v | PosInf \<Rightarrow> True | other \<Rightarrow> False)"

text \<open>
  \<^verbatim>\<open>percentage = (score / total) * 100 if total > 0 else 0\<close>, which stands in front of the
  \<^verbatim>\<open>try\<close> statement.
\<close>

definition percentage_of :: "int \<Rightarrow> int \<Rightarrow> error + pyfloat" where
  "percentage_of score total' =
     (if total' > 0 then
        (case py_truediv score total' of Inl e \<Rightarrow> Inl e | Inr x \<Rightarrow> Inr (times_100 x))
      else Inr (Finite 0))"

text \<open>The four sentences behind the \<^verbatim>\<open>try\<close> statement.\<close>

definition template_feedback :: "pyfloat \<Rightarrow> string \<Rightarrow> string" where
  "template_feedback percentage topic =
     (if float_ge percentage 80 then ''Excellent! You really know your '' @ topic @ ''.''
      else if float_ge percentage 60 then ''Good job! Solid understanding of '' @ topic @ ''.''
      else if float_ge percentage 40 then ''Nice try! Keep learning about '' @ topic @ ''.''
      else ''Keep going! '' @ topic @ '' takes practice.'')"

text \<open>What the \<^verbatim>\<open>try\<close> statement returns for a response that is not empty.\<close>

definition shorten_feedback :: "string \<Rightarrow> string" where
  "shorten_feedback response =
     (let feedback = strip_chars [CHR ''\"'', CHR 0x27] (strip response);
          words = split_ws feedback;
          words = (if length words > 50 then take 50 words else words)
      in join_sp words)"

text \<open>
  \<^verbatim>\<open>generate_feedback\<close>; \<open>r\<close> is what its one request does. The arguments
  \<open>questions\<close> and \<open>answers\<close> are not used by the source either.
\<close>

definition generate_feedback ::
  "response \<Rightarrow> int \<Rightarrow> int \<Rightarrow> string \<Rightarrow> question list \<Rightarrow> int list \<Rightarrow> error + string"
where
  "generate_feedback r score total' topic questions answers =
     (case percentage_of score total' of
        Inl e \<Rightarrow> Inl e
      | Inr percentage \<Rightarrow>
          (case make_request r of
             Inr (Some response) \<Rightarrow> Inr (shorten_feedback response)
           | other \<Rightarrow> Inr (template_feedback percentage topic)))"

section \<open>Notions of the specification\<close>

text \<open>The keys of a question record, in the order in which the code writes them.\<close>

definition question_keys :: "string list" where
  "question_keys = [''id'', ''question'', ''options'', ''correct_index'']"

text \<open>
  The fallback question for the slot \<open>n\<close>: the entry \<open>(n - 1) mod 5\<close> of the bank of the
  topic, numbered \<open>n\<close>.
\<close>

definition fallback_entry :: "string \<Rightarrow> int \<Rightarrow> question" where
  "fallback_entry topic n = (''id'', JInt n) # topic_questions_of topic ! nat ((n - 1) mod 5)"

text \<open>The candidates that pass the validator, in their order.\<close>

definition passing :: "question list \<Rightarrow> question list" where
  "passing qs = filter (\<lambda>q. validate_question q = Inr True) qs"

text \<open>The validator gives a verdict, that is, it does not raise.\<close>

definition has_verdict :: "question \<Rightarrow> bool" where
  "has_verdict q = (validate_question q = Inr True \<or> validate_question q = Inr False)"

text \<open>
  A list of kept questions filled up with the fallback questions of the slots that follow
  it, up to the slot 5.
\<close>

definition padded :: "string \<Rightarrow> question list \<Rightarrow> question list" where
  "padded topic vs = vs @ map (\<lambda>k. fallback_entry topic (int k)) [Suc (length vs) ..< 6]"


fun requests_of :: "effect list \<Rightarrow> nat list" where
  "requests_of [] = []"
| "requests_of (Request n # es) = n # requests_of es"
| "requests_of (Sleep n # es) = requests_of es"

text \<open>A request that gives no text: it raises, or the text of the response is empty.\<close>

fun request_fails :: "response \<Rightarrow> bool" where
  "request_fails (Raises msg) = True"
| "request_fails (Text t) = (t = [])"

text \<open>
  The rules of the validator, as the specification lists them. The question is rejected when
  it is absent, empty (or another false value) or shorter than 15 characters after trimming.
\<close>

definition question_rejected :: "question \<Rightarrow> bool" where
  "question_rejected q =
     (case map_of q ''question'' of
        None \<Rightarrow> True
      | Some (JStr s) \<Rightarrow> length (strip s) < 15
      | Some v \<Rightarrow> \<not> truthy v)"

text \<open>The trimmed question contains, whatever its case, a text of the denylist.\<close>

definition denylisted :: "question \<Rightarrow> bool" where
  "denylisted q =
     (case map_of q ''question'' of
        Some (JStr s) \<Rightarrow> list_ex (\<lambda>p. sublist p (lower (strip s))) low_quality_patterns
      | other \<Rightarrow> False)"

text \<open>
  The options are absent, not a list of exactly four entries, or every entry has at most two
  characters after trimming.
\<close>

definition options_rejected :: "question \<Rightarrow> bool" where
  "options_rejected q =
     (case map_of q ''options'' of
        Some (JArr opts) \<Rightarrow> length opts \<noteq> 4 \<or> list_all short_text opts
      | other \<Rightarrow> True)"

text \<open>
  The answer index of a record: the field \<^verbatim>\<open>correct_index\<close>, and the field
  \<^verbatim>\<open>correctIndex\<close> when that is absent. It is rejected when it is absent, \<^verbatim>\<open>None\<close>, or
  not converted by \<^verbatim>\<open>int\<close> to a number from 0 to 3.
\<close>

definition answer_index :: "question \<Rightarrow> json option" where
  "answer_index q =
     (case map_of q ''correct_index'' of
        Some v \<Rightarrow> Some v
      | None \<Rightarrow> map_of q ''correctIndex'')"

definition index_rejected :: "question \<Rightarrow> bool" where
  "index_rejected q =
     (case answer_index q of
        None \<Rightarrow> True
      | Some v \<Rightarrow> (case py_int v of Inr n \<Rightarrow> n < 0 \<or> 3 < n | Inl e \<Rightarrow> True))"

definition rejected_by_rules :: "question \<Rightarrow> bool" where
  "rejected_by_rules q =
     (question_rejected q \<or> denylisted q \<or> options_rejected q \<or> index_rejected q)"

text \<open>
  The records on which the validator cannot raise: the question is absent, a false value or
  a string, and the answer index is not an infinite float.
\<close>

definition question_is_text :: "question \<Rightarrow> bool" where
  "question_is_text q =
     (case map_of q ''question'' of
        None \<Rightarrow> True
      | Some (JStr s) \<Rightarrow> True
      | Some v \<Rightarrow> \<not> truthy v)"

definition index_is_finite :: "question \<Rightarrow> bool" where
  "index_is_finite q =
     (answer_index q \<noteq> Some (JFloat PosInf) \<and> answer_index q \<noteq> Some (JFloat NegInf))"

text \<open>An element of a parsed list that is a dict.\<close>

fun is_object :: "json \<Rightarrow> bool" where
  "is_object (JObj q) = True"
| "is_object other = False"

text \<open>The dict of an element that is one.\<close>

fun object_fields :: "json \<Rightarrow> pydict" where
  "object_fields (JObj q) = q"
| "object_fields other = []"

text \<open>
  The words of a response: what is left when white space and then quote characters are taken
  from both ends, split at white space.
\<close>

definition feedback_words :: "string \<Rightarrow> string list" where
  "feedback_words response = split_ws (strip_chars [CHR ''\"'', CHR 0x27] (strip response))"

section \<open>Sample responses\<close>

text \<open>
  Texts that a model may send, for the examples further down, and the values that
  \<^verbatim>\<open>json.loads\<close> gives for them. \<open>sample_loads\<close> is \<^verbatim>\<open>json.loads\<close> on the texts the
  examples pass to it: the texts of the table are JSON with the value at their side, and
  the other texts that reach it in an example are not JSON.
\<close>

definition obj_france :: pydict where
  "obj_france =
     [(''question'', JStr ''What is the capital of France?''),
      (''options'', JArr [JStr ''Rome'', JStr ''Oslo'', JStr ''Paris'', JStr ''Bonn'']),
      (''correctIndex'', JInt 2)]"

definition obj_ok :: pydict where
  "obj_ok =
     [(''question'', JStr ''OK?''),
      (''options'', JArr [JStr ''Yes'', JStr ''No'', JStr ''Maybe'', JStr ''Never'']),
      (''correctIndex'', JInt 0)]"

definition obj_mars :: pydict where
  "obj_mars =
     [(''question'', JStr ''Which planet is known as the Red Planet?''),
      (''options'', JArr [JStr ''Venus'', JStr ''Mars'', JStr ''Jupiter'', JStr ''Saturn'']),
      (''correctIndex'', JInt 1)]"

definition obj_synonym :: pydict where
  "obj_synonym =
     [(''question'', JStr ''What is a synonym for happy?''),
      (''options'', JArr [JStr ''Glad'', JStr ''Sad'', JStr ''Angry'', JStr ''Tired'']),
      (''correctIndex'', JInt 0)]"

definition obj_week :: pydict where
  "obj_week =
     [(''question'', JStr ''How many days are there in a week?''),
      (''options'', JArr [JStr ''Five'', JStr ''Six'', JStr ''Seven'', JStr ''Eight'']),
      (''correctIndex'', JInt 2)]"

definition obj_number :: pydict where
  "obj_number =
     [(''question'', JInt 42),
      (''options'', JArr [JStr ''Rome'', JStr ''Oslo'', JStr ''Paris'', JStr ''Bonn'']),
      (''correctIndex'', JInt 0)]"

definition obj_no_index :: pydict where
  "obj_no_index =
     [(''question'', JStr ''What is the capital of France?''),
      (''options'', JArr [JStr ''Rome'', JStr ''Oslo'', JStr ''Paris'', JStr ''Bonn''])]"

definition doc_mixed :: string where
  \<open>doc_mixed =
     ''[{"question": "What is the capital of France?", "options": ["Rome", "Osl'' @
     ''o", "Paris", "Bonn"], "correctIndex": 2}, {"question": "OK?", "options":'' @
     '' ["Yes", "No", "Maybe", "Never"], "correctIndex": 0}, {"question": "Whic'' @
     ''h planet is known as the Red Planet?", "options": ["Venus", "Mars", "Jup'' @
     ''iter", "Saturn"], "correctIndex": 1}, {"question": "What is a synonym fo'' @
     ''r happy?", "options": ["Glad", "Sad", "Angry", "Tired"], "correctIndex":'' @
     '' 0}, {"question": "How many days are there in a week?", "options": ["Fiv'' @
     ''e", "Six", "Seven", "Eight"], "correctIndex": 2}, {"question": 42, "opti'' @
     ''ons": ["Rome", "Oslo", "Paris", "Bonn"], "correctIndex": 0}]''\<close>

definition doc_raising :: string where
  \<open>doc_raising =
     ''[{"question": "What is the capital of France?", "options": ["Rome", "Osl'' @
     ''o", "Paris", "Bonn"], "correctIndex": 2}, {"question": "Which planet is '' @
     ''known as the Red Planet?", "options": ["Venus", "Mars", "Jupiter", "Satu'' @
     ''rn"], "correctIndex": 1}, {"question": "How many days are there in a wee'' @
     ''k?", "options": ["Five", "Six", "Seven", "Eight"], "correctIndex": 2}, {'' @
     ''"question": 42, "options": ["Rome", "Oslo", "Paris", "Bonn"], "correctIn'' @
     ''dex": 0}]''\<close>

definition doc_gap :: string where
  \<open>doc_gap =
     ''[{"question": "What is the capital of France?", "options": ["Rome", "Osl'' @
     ''o", "Paris", "Bonn"], "correctIndex": 2}, {"question": "OK?", "options":'' @
     '' ["Yes", "No", "Maybe", "Never"], "correctIndex": 0}, {"question": "Whic'' @
     ''h planet is known as the Red Planet?", "options": ["Venus", "Mars", "Jup'' @
     ''iter", "Saturn"], "correctIndex": 1}, {"question": "How many days are th'' @
     ''ere in a week?", "options": ["Five", "Six", "Seven", "Eight"], "correctI'' @
     ''ndex": 2}]''\<close>

definition doc_one :: string where
  \<open>doc_one =
     ''[{"question": "What is the capital of France?", "options": ["Rome", "Osl'' @
     ''o", "Paris", "Bonn"], "correctIndex": 2}]''\<close>

definition doc_number :: string where
  \<open>doc_number =
     ''[{"question": 42, "options": ["Rome", "Oslo", "Paris", "Bonn"], "correct'' @
     ''Index": 0}]''\<close>

definition doc_no_index :: string where
  \<open>doc_no_index =
     ''[{"question": "What is the capital of France?", "options": ["Rome", "Osl'' @
     ''o", "Paris", "Bonn"]}, 7]''\<close>

definition doc_object :: string where
  \<open>doc_object =
     ''{"question": "What is the capital of France?", "options": ["Rome", "Oslo'' @
     ''", "Paris", "Bonn"], "correctIndex": 2}''\<close>

text \<open>A fenced block with prose around it, and a text in which a fence opens earlier.\<close>

definition doc_fenced :: string where
  "doc_fenced = ''Here is your quiz: ```json\<newline>'' @ doc_one @ ''\<newline>``` Enjoy!''"

definition doc_two_fences :: string where
  "doc_two_fences = ''Note ```json [x] ```json '' @ doc_one @ '' ```''"

definition sample_documents :: "(string \<times> json) list" where
  "sample_documents =
     [(doc_mixed, JArr [JObj obj_france, JObj obj_ok, JObj obj_mars, JObj obj_synonym, JObj obj_week, JObj obj_number]),
      (doc_raising, JArr [JObj obj_france, JObj obj_mars, JObj obj_week, JObj obj_number]),
      (doc_gap, JArr [JObj obj_france, JObj obj_ok, JObj obj_mars, JObj obj_week]),
      (doc_one, JArr [JObj obj_france]),
      (doc_number, JArr [JObj obj_number]),
      (doc_no_index, JArr [JObj obj_no_index, JInt 7]),
      (doc_object, JObj obj_france)]"

definition sample_loads :: loader where
  "sample_loads s =
     (case map_of sample_documents s of Some v \<Rightarrow> Inr v | None \<Rightarrow> Inl JSONDecodeError)"

section \<open>Facts about the fallback generator and the parser\<close>

lemma length_topic_questions_of: "length (topic_questions_of topic) = 5"
  by (simp add: topic_questions_of_def fallback_questions_def default_questions_def)


lemma generate_fallback_question_eq:
  "generate_fallback_question topic n = Inr (fallback_entry topic n)"
proof -
  have len: "length (topic_questions_of topic) = 5" by (rule length_topic_questions_of)
  have "0 \<le> (n - 1) mod 5" "(n - 1) mod 5 < 5" by simp_all
  then have "py_index (topic_questions_of topic) ((n - 1) mod 5)
      = Inr (topic_questions_of topic ! nat ((n - 1) mod 5))"
    by (simp add: py_index_def len)
  moreover have "topic_questions_of topic \<noteq> []" using len by auto
  ultimately show ?thesis
    by (simp add: generate_fallback_question_def len fallback_entry_def Let_def)
qed


lemma generate_fallback_questions_eq:
  "generate_fallback_questions topic = Inr (map (fallback_entry topic) [1, 2, 3, 4, 5])"
  by (simp add: generate_fallback_questions_def generate_fallback_question_eq)

lemma fallback_questions_padded:
  "map (fallback_entry topic) [1, 2, 3, 4, 5] = padded topic []"
  by (simp add: padded_def upt_conv_Cons)

lemma pad_questions_eq: "pad_questions topic vs = Inr (padded topic vs)"
proof (induction topic vs rule: pad_questions.induct)
  case (1 topic vs)
  show ?case
  proof (cases "length vs < 5")
    case True
    have fb: "generate_fallback_question topic (int (length vs) + 1)
        = Inr (fallback_entry topic (int (Suc (length vs))))"
      by (simp add: generate_fallback_question_eq add.commute)
    have "pad_questions topic vs
        = pad_questions topic (vs @ [fallback_entry topic (int (Suc (length vs)))])"
      using True fb by (subst pad_questions.simps) simp
    also have "\<dots> = Inr (padded topic (vs @ [fallback_entry topic (int (Suc (length vs)))]))"
      using "1.IH" [OF True fb] by simp
    also have "\<dots> = Inr (padded topic vs)"
      using True by (simp add: padded_def upt_conv_Cons)
    finally show ?thesis .
  next
    case False
    then show ?thesis by (subst pad_questions.simps) (simp add: padded_def)
  qed
qed

lemma length_padded: "length vs \<le> 5 \<Longrightarrow> length (padded topic vs) = 5"
  by (simp add: padded_def)


lemma keys_normalize_from:
  "q \<in> set (normalize_from i xs) \<Longrightarrow> map fst q = question_keys"
  by (induction i xs rule: normalize_from.induct)
     (auto simp add: normalize_one_def question_keys_def)

lemma keys_normalize_questions:
  "normalize_questions v = Inr qs \<Longrightarrow> q \<in> set qs \<Longrightarrow> map fst q = question_keys"
  by (cases v) (auto simp add: keys_normalize_from)

lemma returning_Some [simp]: "returning r = Inr (Some qs) \<longleftrightarrow> r = Inr qs"
  by (cases r) (auto simp add: returning_def)

lemma returning_not_None [simp]: "returning r \<noteq> Inr None"
  by (cases r) (auto simp add: returning_def)

lemma keys_try_match:
  "try_match loads m = Inr (Some qs) \<Longrightarrow> q \<in> set qs \<Longrightarrow> map fst q = question_keys"
  unfolding try_match_def Let_def
  by (auto split: if_splits sum.splits json.splits option.splits
      dest: keys_normalize_questions keys_normalize_from)

lemma keys_try_matches:
  "try_matches loads ms = Inr (Some qs) \<Longrightarrow> q \<in> set qs \<Longrightarrow> map fst q = question_keys"
  by (induction ms) (auto split: sum.splits option.splits dest: keys_try_match)

lemma keys_try_patterns:
  "try_patterns loads text ps = Inr (Some qs) \<Longrightarrow> q \<in> set qs \<Longrightarrow> map fst q = question_keys"
  by (induction ps) (auto split: sum.splits option.splits dest: keys_try_matches)

lemma keys_extract_json:
  "extract_json loads text = Inr (Some qs) \<Longrightarrow> q \<in> set qs \<Longrightarrow> map fst q = question_keys"
  unfolding extract_json_def
  by (auto split: if_splits sum.splits json.splits option.splits
      dest: keys_normalize_questions keys_normalize_from keys_try_patterns)

section \<open>Facts about the orchestrator\<close>


lemma valid_questions_of_verdicts:
  "list_all has_verdict xs \<Longrightarrow> valid_questions_of xs = Inr (passing xs)"
proof (induction xs)
  case Nil
  then show ?case by (simp add: passing_def)
next
  case (Cons q qs)
  then have "valid_questions_of qs = Inr (passing qs)" by simp
  moreover from Cons.prems have "validate_question q = Inr True \<or> validate_question q = Inr False"
    by (simp add: has_verdict_def)
  ultimately show ?case by (auto simp add: passing_def)
qed

lemma length_passing_take: "length (passing (take 5 cands)) \<le> 5"
proof -
  have "length (passing (take 5 cands)) \<le> length (take 5 cands)"
    unfolding passing_def by (rule length_filter_le)
  then show ?thesis by simp
qed



lemma attempt_body_accepts:
  assumes "r = Text response" "response \<noteq> []"
    and "extract_json loads response = Inr (Some cands)"
    and "list_all has_verdict (take 5 cands)"
    and "3 \<le> length (passing (take 5 cands))"
  shows "attempt_body loads topic r = Inr (Some (padded topic (passing (take 5 cands))))"
proof -
  have "length (passing (take 5 cands)) \<le> 5" by (rule length_passing_take)
  then have "length (padded topic (passing (take 5 cands))) = 5" by (rule length_padded)
  with assms show ?thesis
    by (simp add: attempt_body_def make_request_def valid_questions_of_verdicts pad_questions_eq)
qed

lemma attempt_body_fails:
  "request_fails r \<Longrightarrow> attempt_body loads topic r \<noteq> Inr (Some res)"
  by (cases r) (auto simp add: attempt_body_def make_request_def)

text \<open>One round of the loop.\<close>

lemma quiz_loop_done:
  "\<not> attempt < max_retries \<Longrightarrow>
     quiz_loop loads transport topic attempt = (Inr (padded topic []), [])"
proof -
  assume "\<not> attempt < max_retries"
  then have "quiz_loop loads transport topic attempt = (generate_fallback_questions topic, [])"
    by (subst quiz_loop.simps) simp
  then show ?thesis
    by (simp only: generate_fallback_questions_eq fallback_questions_padded)
qed

lemma quiz_loop_return:
  "attempt < max_retries \<Longrightarrow> attempt_body loads topic (transport attempt) = Inr (Some res) \<Longrightarrow>
     quiz_loop loads transport topic attempt = (Inr res, [Request attempt])"
  by (subst quiz_loop.simps) simp

lemma quiz_loop_retry:
  assumes "attempt < max_retries"
    and "\<And>res. attempt_body loads topic (transport attempt) \<noteq> Inr (Some res)"
  shows "quiz_loop loads transport topic attempt =
     (fst (quiz_loop loads transport topic (Suc attempt)),
      Request attempt # (if attempt < max_retries - 1 then [Sleep retry_delay] else [])
        @ snd (quiz_loop loads transport topic (Suc attempt)))"
proof (cases "attempt_body loads topic (transport attempt)")
  case (Inl e)
  with assms(1) show ?thesis
    by (subst quiz_loop.simps) (simp add: case_prod_unfold Let_def)
next
  case (Inr x)
  with assms(2) have "x = None" by (cases x) auto
  with Inr assms(1) show ?thesis
    by (subst quiz_loop.simps) (simp add: case_prod_unfold Let_def)
qed


section \<open>The claims about the orchestrator\<close>



lemma quiz_loop_skip:
  assumes "\<forall>j. a \<le> j \<and> j < k \<longrightarrow> (\<forall>res. attempt_body loads topic (transport j) \<noteq> Inr (Some res))"
    and "a \<le> k" and "k \<le> max_retries"
  shows "fst (quiz_loop loads transport topic a) = fst (quiz_loop loads transport topic k)
     \<and> requests_of (snd (quiz_loop loads transport topic a))
         = [a ..< k] @ requests_of (snd (quiz_loop loads transport topic k))"
  using assms
proof (induction "k - a" arbitrary: a)
  case 0
  then have "a = k" by simp
  then show ?case by simp
next
  case (Suc n)
  then have lt: "a < k" and n: "n = k - Suc a" by simp_all
  with Suc.prems have am: "a < max_retries" by simp
  from Suc.prems(1) lt have nores: "\<And>res. attempt_body loads topic (transport a) \<noteq> Inr (Some res)"
    by simp
  have step: "quiz_loop loads transport topic a =
     (fst (quiz_loop loads transport topic (Suc a)),
      Request a # (if a < max_retries - 1 then [Sleep retry_delay] else [])
        @ snd (quiz_loop loads transport topic (Suc a)))"
    using am nores by (rule quiz_loop_retry [of a loads topic transport])
  have ih: "fst (quiz_loop loads transport topic (Suc a)) = fst (quiz_loop loads transport topic k)
     \<and> requests_of (snd (quiz_loop loads transport topic (Suc a)))
         = [Suc a ..< k] @ requests_of (snd (quiz_loop loads transport topic k))"
    using Suc.hyps(1) [OF n] Suc.prems lt by simp
  have "[a ..< k] = a # [Suc a ..< k]" using lt by (simp add: upt_conv_Cons)
  with ih show ?case by (subst (1 2) step) simp
qed



lemma padded_three:
  "length vs = 3 \<Longrightarrow> padded topic vs = vs @ [fallback_entry topic 4, fallback_entry topic 5]"
  by (simp add: padded_def upt_conv_Cons)

text \<open>
  C4. When the request fails on every attempt, \<^verbatim>\<open>generate_quiz\<close> returns the fallback
  questions of the slots 1 to 5 for the topic, in this order. The bank of a topic is found
  by comparing the topic with the names of the dedicated banks as they are written; a topic
  without a bank of its own, such as \<^verbatim>\<open>History\<close> or \<^verbatim>\<open>world history\<close>, gets the generic
  questions, which contain the topic.
\<close>

theorem generate_quiz_all_fail:
  assumes "\<forall>j<max_retries. request_fails (transport j)"
  shows "fst (generate_quiz loads transport topic)
        = Inr (map (fallback_entry topic) [1, 2, 3, 4, 5])
     \<and> (map_of fallback_questions topic = None \<longrightarrow>
          map (fallback_entry topic) [1, 2, 3, 4, 5]
            = map (\<lambda>n. (''id'', JInt n) # default_questions topic ! nat (n - 1)) [1, 2, 3, 4, 5])
     \<and> (map_of fallback_questions topic = Some bank \<longrightarrow>
          map (fallback_entry topic) [1, 2, 3, 4, 5]
            = map (\<lambda>n. (''id'', JInt n) # bank ! nat (n - 1)) [1, 2, 3, 4, 5])
     \<and> map_of fallback_questions ''History'' = None
     \<and> map_of fallback_questions ''world history'' = None
     \<and> map_of fallback_questions ''World History'' \<noteq> None"
proof -
  from assms have "\<forall>j. 0 \<le> j \<and> j < max_retries \<longrightarrow>
      (\<forall>res. attempt_body loads topic (transport j) \<noteq> Inr (Some res))"
    by (simp add: attempt_body_fails)
  from quiz_loop_skip [OF this]
  have "fst (quiz_loop loads transport topic 0) = fst (quiz_loop loads transport topic max_retries)"
    by simp
  also have "\<dots> = Inr (padded topic [])" by (simp add: quiz_loop_done)
  finally have a: "fst (generate_quiz loads transport topic)
      = Inr (map (fallback_entry topic) [1, 2, 3, 4, 5])"
    by (simp only: generate_quiz_def fallback_questions_padded)
  have b: "map_of fallback_questions topic = None \<longrightarrow>
      map (fallback_entry topic) [1, 2, 3, 4, 5]
        = map (\<lambda>n. (''id'', JInt n) # default_questions topic ! nat (n - 1)) [1, 2, 3, 4, 5]"
    by (simp add: fallback_entry_def topic_questions_of_def)
  have c: "map_of fallback_questions topic = Some bank \<longrightarrow>
      map (fallback_entry topic) [1, 2, 3, 4, 5]
        = map (\<lambda>n. (''id'', JInt n) # bank ! nat (n - 1)) [1, 2, 3, 4, 5]"
    by (simp add: fallback_entry_def topic_questions_of_def)
  have d: "map_of fallback_questions ''History'' = None"
    by (simp add: fallback_questions_def)
  have e: "map_of fallback_questions ''world history'' = None"
    by (simp add: fallback_questions_def)
  have f: "map_of fallback_questions ''World History'' \<noteq> None"
    by (simp add: fallback_questions_def)
  from a b c d e f show ?thesis by blast
qed

theorem generate_quiz_all_fail_witness:
  "fst (generate_quiz sample_loads (\<lambda>n. Raises ''connection refused'') ''History'')
     = Inr [(''id'', JInt 1) # bank_entry ''What is a key aspect of History?''
              [''Knowledge'', ''Ignorance'', ''Confusion'', ''None''] 0,
            (''id'', JInt 2) # bank_entry ''Why is History important?''
              [''Personal growth'', ''No reason'', ''Waste of time'', ''Harmful''] 0,
            (''id'', JInt 3) # bank_entry ''How can one learn about History?''
              [''Reading and practice'', ''Sleeping'', ''Ignoring it'', ''Running away''] 0,
            (''id'', JInt 4) # bank_entry ''What skill helps in History?''
              [''Critical thinking'', ''Laziness'', ''Procrastination'', ''Denial''] 0,
            (''id'', JInt 5) # bank_entry ''Who can benefit from History?''
              [''Everyone'', ''No one'', ''Only experts'', ''Only children''] 0]"
proof -
  have "\<forall>j<max_retries. request_fails ((\<lambda>n. Raises ''connection refused'') j)" by simp
  from generate_quiz_all_fail [OF this, of sample_loads "''History''"]
  show ?thesis by (simp add: default_questions_def)
qed

text \<open>
  An attempt whose candidates all get a verdict. Let the attempt \<open>k\<close> be the first that
  returns: its response has a text from which the parser gets candidates, the validator
  gives a verdict on each of the first five candidates, and at least three of them pass.
  Then \<^verbatim>\<open>generate_quiz\<close> returns the passing candidates in their order, followed by the
  fallback questions of the slots after them, cut to five entries, which are exactly five;
  the requests made are those of the attempts \<open>0\<close> to \<open>k\<close>; nothing is asked of the
  candidates behind the fifth; and three passing candidates are followed by the fallback
  questions of the slots 4 and 5.
\<close>

theorem generate_quiz_accepts:
  assumes "k < max_retries"
    and "\<forall>j<k. \<forall>res. attempt_body loads topic (transport j) \<noteq> Inr (Some res)"
    and "transport k = Text response" and "response \<noteq> []"
    and "extract_json loads response = Inr (Some cands)"
    and "list_all has_verdict (take 5 cands)"
    and "3 \<le> length (passing (take 5 cands))"
  shows "fst (generate_quiz loads transport topic)
        = Inr (take 5 (passing (take 5 cands)
            @ map (\<lambda>n. fallback_entry topic (int n)) [Suc (length (passing (take 5 cands))) ..< 6]))
     \<and> length (take 5 (passing (take 5 cands)
            @ map (\<lambda>n. fallback_entry topic (int n)) [Suc (length (passing (take 5 cands))) ..< 6]))
          = 5
     \<and> requests_of (snd (generate_quiz loads transport topic)) = [0 ..< Suc k]
     \<and> (length (passing (take 5 cands)) = 3 \<longrightarrow>
          fst (generate_quiz loads transport topic)
            = Inr (passing (take 5 cands) @ [fallback_entry topic 4, fallback_entry topic 5]))"
proof -
  let ?vs = "passing (take 5 cands)"
  have body: "attempt_body loads topic (transport k) = Inr (Some (padded topic ?vs))"
    using assms(3-7) by (rule attempt_body_accepts)
  have here: "quiz_loop loads transport topic k = (Inr (padded topic ?vs), [Request k])"
    using assms(1) body by (simp add: quiz_loop_return)
  from assms(2) have "\<forall>j. 0 \<le> j \<and> j < k \<longrightarrow>
      (\<forall>res. attempt_body loads topic (transport j) \<noteq> Inr (Some res))"
    by simp
  from quiz_loop_skip [OF this] assms(1)
  have "fst (quiz_loop loads transport topic 0) = fst (quiz_loop loads transport topic k)"
    and "requests_of (snd (quiz_loop loads transport topic 0))
      = [0 ..< k] @ requests_of (snd (quiz_loop loads transport topic k))"
    by simp_all
  with here have res: "fst (generate_quiz loads transport topic) = Inr (padded topic ?vs)"
    and req: "requests_of (snd (generate_quiz loads transport topic)) = [0 ..< Suc k]"
    by (simp_all add: generate_quiz_def)
  have "length ?vs \<le> 5" by (rule length_passing_take)
  then have five: "length (padded topic ?vs) = 5" by (rule length_padded)
  then have cut: "take 5 (padded topic ?vs) = padded topic ?vs" by simp
  have a: "fst (generate_quiz loads transport topic)
      = Inr (take 5 (?vs @ map (\<lambda>n. fallback_entry topic (int n)) [Suc (length ?vs) ..< 6]))"
    using res cut by (simp add: padded_def)
  have b: "length (take 5 (?vs @ map (\<lambda>n. fallback_entry topic (int n)) [Suc (length ?vs) ..< 6]))
      = 5"
    using five cut by (simp add: padded_def)
  have c: "length ?vs = 3 \<longrightarrow> fst (generate_quiz loads transport topic)
      = Inr (?vs @ [fallback_entry topic 4, fallback_entry topic 5])"
    using res by (simp add: padded_three)
  from a b req c show ?thesis by blast
qed

text \<open>The sample responses, parsed and validated.\<close>

lemma extract_mixed:
  "extract_json sample_loads doc_mixed
     = Inr (Some (normalize_from 0 [JObj obj_france, JObj obj_ok, JObj obj_mars, JObj obj_synonym,
         JObj obj_week, JObj obj_number]))"
  by code_simp

lemma passing_mixed:
  "passing (take 5 (normalize_from 0 [JObj obj_france, JObj obj_ok, JObj obj_mars,
       JObj obj_synonym, JObj obj_week, JObj obj_number]))
     = [normalize_one 0 obj_france, normalize_one 2 obj_mars, normalize_one 4 obj_week]"
  by code_simp

lemma verdicts_mixed:
  "list_all has_verdict (take 5 (normalize_from 0 [JObj obj_france, JObj obj_ok, JObj obj_mars,
       JObj obj_synonym, JObj obj_week, JObj obj_number]))"
  by code_simp

lemma doc_mixed_not_empty: "doc_mixed \<noteq> []"
  by (simp add: doc_mixed_def)

theorem generate_quiz_accepts_witness:
  "fst (generate_quiz sample_loads (\<lambda>n. Text doc_mixed) ''History'')
     = Inr [normalize_one 0 obj_france, normalize_one 2 obj_mars, normalize_one 4 obj_week,
            fallback_entry ''History'' 4, fallback_entry ''History'' 5]
   \<and> requests_of (snd (generate_quiz sample_loads (\<lambda>n. Text doc_mixed) ''History'')) = [0]"
proof -
  let ?cands = "normalize_from 0 [JObj obj_france, JObj obj_ok, JObj obj_mars,
       JObj obj_synonym, JObj obj_week, JObj obj_number]"
  have first: "(0::nat) < max_retries" by (simp add: max_retries_def)
  have none: "\<forall>j<(0::nat). \<forall>res.
      attempt_body sample_loads ''History'' ((\<lambda>n. Text doc_mixed) j) \<noteq> Inr (Some res)"
    by simp
  have three: "length (passing (take 5 ?cands)) = 3"
    unfolding passing_mixed by simp
  then have enough: "3 \<le> length (passing (take 5 ?cands))" by simp
  from generate_quiz_accepts [of 0 sample_loads "''History''" "\<lambda>n. Text doc_mixed" doc_mixed
      ?cands, OF first none refl doc_mixed_not_empty extract_mixed verdicts_mixed enough] three
  have "fst (generate_quiz sample_loads (\<lambda>n. Text doc_mixed) ''History'')
      = Inr (passing (take 5 ?cands) @ [fallback_entry ''History'' 4, fallback_entry ''History'' 5])"
    and "requests_of (snd (generate_quiz sample_loads (\<lambda>n. Text doc_mixed) ''History'')) = [0 ..< Suc 0]"
    by blast+
  then show ?thesis unfolding passing_mixed by simp
qed

text \<open>
  C2. The specification says: when at least three of the first five candidates of an
  attempt pass the validator, the quiz is made of the passing candidates in their order,
  followed by the fallback questions of the slots after them, and no further request is
  made. The code does not do this on the response \<open>doc_raising\<close>, a list of four
  candidates: the first three pass the validator, and on the fourth, whose question is the
  number 42, the validator raises \<^verbatim>\<open>AttributeError\<close> where it should reject (the defect
  of C9: \<^verbatim>\<open>strip\<close> is called on the question with no check of its type). The handler
  of the attempt catches the exception and gives the attempt up with its three passing
  candidates; the same happens on the two attempts that follow, so three requests are
  made, and the quiz is made of fallback questions only.
\<close>

theorem generate_quiz_accepts_counterexample:
  "extract_json sample_loads doc_raising
     = Inr (Some (normalize_from 0 [JObj obj_france, JObj obj_mars, JObj obj_week, JObj obj_number]))
   \<and> passing (take 5 (normalize_from 0 [JObj obj_france, JObj obj_mars, JObj obj_week,
        JObj obj_number]))
     = [normalize_one 0 obj_france, normalize_one 1 obj_mars, normalize_one 2 obj_week]
   \<and> fst (generate_quiz sample_loads (\<lambda>n. Text doc_raising) ''History'')
     = Inr (map (fallback_entry ''History'') [1, 2, 3, 4, 5])
   \<and> fst (generate_quiz sample_loads (\<lambda>n. Text doc_raising) ''History'')
     \<noteq> Inr [normalize_one 0 obj_france, normalize_one 1 obj_mars, normalize_one 2 obj_week,
            fallback_entry ''History'' 4, fallback_entry ''History'' 5]
   \<and> requests_of (snd (generate_quiz sample_loads (\<lambda>n. Text doc_raising) ''History''))
     = [0, 1, 2]"
proof -
  have a: "extract_json sample_loads doc_raising
     = Inr (Some (normalize_from 0 [JObj obj_france, JObj obj_mars, JObj obj_week, JObj obj_number]))"
    by code_simp
  have b: "passing (take 5 (normalize_from 0 [JObj obj_france, JObj obj_mars, JObj obj_week,
        JObj obj_number]))
     = [normalize_one 0 obj_france, normalize_one 1 obj_mars, normalize_one 2 obj_week]"
    by code_simp
  have c: "generate_quiz sample_loads (\<lambda>n. Text doc_raising) ''History''
     = (Inr (map (fallback_entry ''History'') [1, 2, 3, 4, 5]),
        [Request 0, Sleep 2, Request 1, Sleep 2, Request 2])"
    by code_simp
  have d: "fallback_entry ''History'' 1 \<noteq> normalize_one 0 obj_france"
    by code_simp
  from a b c d show ?thesis by simp
qed




section \<open>The claims about the validator\<close>

lemma py_int_error:
  "py_int v = Inl e \<Longrightarrow> e = ValueError \<or> e = TypeError \<or> e = OverflowError"
  by (cases v rule: py_int.cases)
     (auto simp add: int_of_str_def split: list.splits if_splits option.splits)

lemma py_int_overflow:
  "py_int v = Inl OverflowError \<Longrightarrow> v = JFloat PosInf \<or> v = JFloat NegInf"
  by (cases v rule: py_int.cases)
     (auto simp add: int_of_str_def split: list.splits if_splits option.splits)

lemma validate_index_rules:
  assumes "v \<noteq> JFloat PosInf" "v \<noteq> JFloat NegInf"
  shows "validate_index v
     = Inr (\<not> (case py_int v of Inr n \<Rightarrow> n < 0 \<or> 3 < n | Inl e \<Rightarrow> True))"
proof (cases "py_int v")
  case (Inl e)
  with assms py_int_overflow [of v] py_int_error [of v e]
  have "e = ValueError \<or> e = TypeError" by auto
  with Inl show ?thesis by (auto simp add: validate_index_def)
next
  case (Inr n)
  then show ?thesis by (auto simp add: validate_index_def)
qed

lemma validate_question_absent:
  "map_of q ''question'' = None \<Longrightarrow> validate_question q = Inr False"
  by (simp add: validate_question_def)

lemma validate_question_false:
  "map_of q ''question'' = Some v \<Longrightarrow> \<not> truthy v \<Longrightarrow> validate_question q = Inr False"
  by (simp add: validate_question_def)

text \<open>The validator on a question that is a string that is not empty.\<close>

lemma validate_question_text:
  assumes "map_of q ''question'' = Some (JStr s)" "s \<noteq> []"
  shows "validate_question q =
     (if length (strip s) < 15 then Inr False
      else if list_ex (\<lambda>p. sublist p (lower (strip s))) low_quality_patterns then Inr False
      else if options_rejected q then Inr False
      else (case answer_index q of
              None \<Rightarrow> Inr False
            | Some JNull \<Rightarrow> Inr False
            | Some v \<Rightarrow> validate_index v))"
  using assms
  by (auto simp add: validate_question_def Let_def options_rejected_def answer_index_def
      split: option.splits json.splits)

lemma validate_question_rules_text:
  assumes q: "map_of q ''question'' = Some (JStr s)" and fin: "index_is_finite q"
  shows "validate_question q = Inr (\<not> rejected_by_rules q)"
proof (cases "s = []")
  case True
  with q have "validate_question q = Inr False" by (simp add: validate_question_false)
  moreover from q True have "question_rejected q" by (simp add: question_rejected_def strip_def rstrip_def lstrip_def)
  ultimately show ?thesis by (simp add: rejected_by_rules_def)
next
  case False
  note v = validate_question_text [OF q False]
  from q have qr: "question_rejected q = (length (strip s) < 15)"
    and dl: "denylisted q = list_ex (\<lambda>p. sublist p (lower (strip s))) low_quality_patterns"
    by (simp_all add: question_rejected_def denylisted_def)
  show ?thesis
  proof (cases "question_rejected q \<or> denylisted q \<or> options_rejected q")
    case True
    with v qr dl show ?thesis by (auto simp add: rejected_by_rules_def)
  next
    case no: False
    show ?thesis
    proof (cases "answer_index q")
      case None
      with v qr dl no show ?thesis by (simp add: rejected_by_rules_def index_rejected_def)
    next
      case (Some a)
      with fin have "a \<noteq> JFloat PosInf" "a \<noteq> JFloat NegInf"
        by (auto simp add: index_is_finite_def)
      from validate_index_rules [OF this]
      have vi: "validate_index a = Inr (\<not> index_rejected q)"
        by (simp add: index_rejected_def Some)
      show ?thesis
      proof (cases "a = JNull")
        case True
        with v qr dl no Some show ?thesis
          by (simp add: rejected_by_rules_def index_rejected_def)
      next
        case False
        with v qr dl no Some vi show ?thesis
          by (cases a) (simp_all add: rejected_by_rules_def)
      qed
    qed
  qed
qed

lemma france_is_long: "\<not> length (strip ''What is the capital of France?'') < 15"
  by code_simp

lemma france_is_clean:
  "\<not> list_ex (\<lambda>p. sublist p (lower (strip ''What is the capital of France?''))) low_quality_patterns"
  by code_simp

lemma ok_is_short: "length (strip ''OK?'') < 15"
  by code_simp

text \<open>
  C3, as the code has it. On a record whose question is absent, a false value or a string
  and whose answer index is not an infinite float, the validator rejects exactly when one
  of the four rules rejects: the question (absent, empty, or shorter than 15 characters
  after trimming), the denylist (one of its texts is part of the trimmed question, whatever
  the case of the letters), the options (absent, not a list of four, or every entry at most
  two characters long after trimming), and the answer index, which is the field
  \<^verbatim>\<open>correct_index\<close> or, without it, \<^verbatim>\<open>correctIndex\<close> (absent, \<^verbatim>\<open>None\<close>, or not
  converted by \<^verbatim>\<open>int\<close> to a number from 0 to 3). A question that contains
  \<^verbatim>\<open>synonym for\<close> is rejected whatever the other fields are, and so is the question
  \<^verbatim>\<open>OK?\<close>; the question \<^verbatim>\<open>What is the capital of France?\<close> with four options, one of
  which is longer than two characters, and the answer index 2 is accepted.
\<close>

theorem validate_question_rules:
  "(question_is_text q \<and> index_is_finite q \<longrightarrow>
      validate_question q = Inr (\<not> rejected_by_rules q))
   \<and> (map_of q ''question'' = Some (JStr s) \<and> sublist ''synonym for'' (lower (strip s)) \<longrightarrow>
      validate_question q = Inr False)
   \<and> (map_of q ''question'' = Some (JStr ''OK?'') \<longrightarrow> validate_question q = Inr False)
   \<and> (map_of q ''question'' = Some (JStr ''What is the capital of France?'')
        \<and> map_of q ''options'' = Some (JArr [o1, o2, o3, o4])
        \<and> \<not> list_all short_text [o1, o2, o3, o4]
        \<and> map_of q ''correct_index'' = Some (JInt 2) \<longrightarrow>
      validate_question q = Inr True)"
proof -
  have a: "question_is_text q \<and> index_is_finite q \<longrightarrow>
      validate_question q = Inr (\<not> rejected_by_rules q)"
  proof (intro impI, elim conjE)
    assume t: "question_is_text q" and fin: "index_is_finite q"
    show "validate_question q = Inr (\<not> rejected_by_rules q)"
    proof (cases "map_of q ''question''")
      case None
      then show ?thesis
        by (simp add: validate_question_absent rejected_by_rules_def question_rejected_def)
    next
      case (Some v)
      show ?thesis
      proof (cases "\<exists>s. v = JStr s")
        case True
        with Some fin show ?thesis by (auto simp add: validate_question_rules_text)
      next
        case False
        with t Some have f: "\<not> truthy v" by (cases v) (simp_all add: question_is_text_def)
        with Some have "validate_question q = Inr False" by (simp add: validate_question_false)
        moreover from Some False f have "question_rejected q"
          by (cases v) (simp_all add: question_rejected_def)
        ultimately show ?thesis by (simp add: rejected_by_rules_def)
      qed
    qed
  qed
  have b: "map_of q ''question'' = Some (JStr s) \<and> sublist ''synonym for'' (lower (strip s)) \<longrightarrow>
      validate_question q = Inr False"
  proof (intro impI, elim conjE)
    assume q: "map_of q ''question'' = Some (JStr s)"
      and syn: "sublist ''synonym for'' (lower (strip s))"
    then have "list_ex (\<lambda>p. sublist p (lower (strip s))) low_quality_patterns"
      by (simp add: low_quality_patterns_def)
    with q show "validate_question q = Inr False"
      by (cases "s = []") (simp_all add: validate_question_false validate_question_text)
  qed
  have c: "map_of q ''question'' = Some (JStr ''OK?'') \<longrightarrow> validate_question q = Inr False"
    using ok_is_short by (simp add: validate_question_text)
  have d: "map_of q ''question'' = Some (JStr ''What is the capital of France?'')
        \<and> map_of q ''options'' = Some (JArr [o1, o2, o3, o4])
        \<and> \<not> list_all short_text [o1, o2, o3, o4]
        \<and> map_of q ''correct_index'' = Some (JInt 2) \<longrightarrow>
      validate_question q = Inr True"
  proof (intro impI, elim conjE)
    assume q: "map_of q ''question'' = Some (JStr ''What is the capital of France?'')"
      and o: "map_of q ''options'' = Some (JArr [o1, o2, o3, o4])"
      and l: "\<not> list_all short_text [o1, o2, o3, o4]"
      and i: "map_of q ''correct_index'' = Some (JInt 2)"
    from o l have "\<not> options_rejected q" by (simp add: options_rejected_def)
    moreover from i have "answer_index q = Some (JInt 2)" by (simp add: answer_index_def)
    ultimately show "validate_question q = Inr True"
      using france_is_long france_is_clean
      by (simp add: validate_question_text [OF q] validate_index_def)
  qed
  from a b c d show ?thesis by blast
qed

theorem validate_question_rules_witness:
  "validate_question (normalize_one 0 obj_france) = Inr True
   \<and> validate_question (normalize_one 3 obj_synonym) = Inr False
   \<and> validate_question (normalize_one 1 obj_ok) = Inr False"
proof -
  have "question_is_text (normalize_one 0 obj_france)"
    "index_is_finite (normalize_one 0 obj_france)"
    "\<not> rejected_by_rules (normalize_one 0 obj_france)"
    by code_simp+
  with validate_question_rules [of "normalize_one 0 obj_france"]
  have a: "validate_question (normalize_one 0 obj_france) = Inr True" by simp
  have "map_of (normalize_one 3 obj_synonym) ''question'' = Some (JStr ''What is a synonym for happy?'')"
    "sublist ''synonym for'' (lower (strip ''What is a synonym for happy?''))"
    by code_simp+
  with validate_question_rules [of "normalize_one 3 obj_synonym" "''What is a synonym for happy?''"]
  have b: "validate_question (normalize_one 3 obj_synonym) = Inr False" by simp
  have "map_of (normalize_one 1 obj_ok) ''question'' = Some (JStr ''OK?'')"
    by code_simp
  with validate_question_rules [of "normalize_one 1 obj_ok"]
  have c: "validate_question (normalize_one 1 obj_ok) = Inr False" by simp
  from a b c show ?thesis by simp
qed

text \<open>
  C3 as it is stated fails in three places. A record with the field \<^verbatim>\<open>correctIndex\<close> and
  without the field \<^verbatim>\<open>correct_index\<close> is accepted. On a record whose question is the
  number 42 the validator gives no verdict, it raises, although the options are absent.
  And four options that differ from each other, with the question about France and the
  index 2, are rejected when none of them is longer than two characters.
\<close>

theorem validate_question_rules_counterexample:
  "map_of obj_france ''correct_index'' = None
   \<and> validate_question obj_france = Inr True
   \<and> map_of [(''question'', JInt 42)] ''options'' = None
   \<and> validate_question [(''question'', JInt 42)] = Inl AttributeError
   \<and> distinct [JStr ''A'', JStr ''B'', JStr ''C'', JStr ''D'']
   \<and> validate_question
        [(''question'', JStr ''What is the capital of France?''),
         (''options'', JArr [JStr ''A'', JStr ''B'', JStr ''C'', JStr ''D'']),
         (''correct_index'', JInt 2)] = Inr False"
proof -
  have a: "map_of obj_france ''correct_index'' = None" by code_simp
  have b: "validate_question obj_france = Inr True" by code_simp
  have c: "map_of [(''question'', JInt 42)] ''options'' = None" by simp
  have d: "validate_question [(''question'', JInt 42)] = Inl AttributeError" by code_simp
  have e: "distinct [JStr ''A'', JStr ''B'', JStr ''C'', JStr ''D'']" by simp
  have f: "validate_question
        [(''question'', JStr ''What is the capital of France?''),
         (''options'', JArr [JStr ''A'', JStr ''B'', JStr ''C'', JStr ''D'']),
         (''correct_index'', JInt 2)] = Inr False"
    by code_simp
  from a b c d e f show ?thesis by simp
qed

text \<open>
  C9. The validator is not a function that always gives a verdict: the response
  \<open>doc_number\<close>, a list with one question object whose question is the number 42, gives the
  parser one candidate, and on this candidate the validator raises \<open>AttributeError\<close>.
\<close>

theorem validate_question_raises:
  "extract_json sample_loads doc_number = Inr (Some [normalize_one 0 obj_number])
   \<and> normalize_one 0 obj_number
       = [(''id'', JInt 1), (''question'', JInt 42),
          (''options'', JArr [JStr ''Rome'', JStr ''Oslo'', JStr ''Paris'', JStr ''Bonn'']),
          (''correct_index'', JInt 0)]
   \<and> validate_question (normalize_one 0 obj_number) = Inl AttributeError"
proof -
  have a: "extract_json sample_loads doc_number = Inr (Some [normalize_one 0 obj_number])"
    by code_simp
  have b: "normalize_one 0 obj_number
       = [(''id'', JInt 1), (''question'', JInt 42),
          (''options'', JArr [JStr ''Rome'', JStr ''Oslo'', JStr ''Paris'', JStr ''Bonn'']),
          (''correct_index'', JInt 0)]"
    by code_simp
  have c: "validate_question (normalize_one 0 obj_number) = Inl AttributeError"
    by code_simp
  from a b c show ?thesis by simp
qed

section \<open>The claims about the parser\<close>

lemma normalize_from_enumerate:
  "normalize_from i xs
     = map (\<lambda>(k, x). normalize_one k (object_fields x))
         (filter (\<lambda>(k, x). is_object x) (zip [i ..< i + length xs] xs))"
proof (induction xs arbitrary: i)
  case Nil
  then show ?case by simp
next
  case (Cons x xs)
  have "[i ..< Suc (i + length xs)] = i # [Suc i ..< Suc (i + length xs)]"
    by (rule upt_conv_Cons) simp
  then have "[i ..< i + length (x # xs)] = i # [Suc i ..< Suc i + length xs]"
    by simp
  with Cons [of "Suc i"] show ?case by (cases x) simp_all
qed

lemma normalize_from_no_objects:
  "\<not> list_ex is_object xs \<Longrightarrow> normalize_from i xs = []"
  by (induction i xs rule: normalize_from.induct) simp_all

lemma map_of_normalize_one:
  "map_of (normalize_one i q) ''question'' = Some (dict_get q ''question'' (JStr []))"
  "map_of (normalize_one i q) ''options'' = Some (dict_get q ''options'' (JArr []))"
  "map_of (normalize_one i q) ''correct_index''
     = Some (dict_get q ''correct_index'' (dict_get q ''correctIndex'' (JInt 0)))"
  "map_of (normalize_one i q) ''correctIndex'' = None"
  "map_of (normalize_one i q) ''id'' = Some (dict_get q ''id'' (JInt (int i + 1)))"
  by (simp_all add: normalize_one_def)

text \<open>
  C10. Every record of a list that the parser returns has the four fields. From a parsed
  list the elements that are not objects are left out and an object at the place \<open>k\<close>
  becomes \<open>normalize_one k\<close> of its fields, so a list without objects gives an empty list
  of candidates. A missing question becomes the empty string, missing options the empty
  list, and a missing answer index, under both of its names, the number 0; a question
  object that is in order but for its missing answer index passes the validator.
\<close>

theorem parser_output_normalized:
  "(extract_json loads response = Inr (Some qs) \<longrightarrow> (\<forall>q\<in>set qs. map fst q = question_keys))
   \<and> normalize_from 0 xs
       = map (\<lambda>(k, x). normalize_one k (object_fields x))
           (filter (\<lambda>(k, x). is_object x) (zip [0 ..< length xs] xs))
   \<and> (loads (strip response) = Inr (JArr xs) \<and> xs \<noteq> [] \<and> \<not> list_ex is_object xs \<longrightarrow>
        extract_json loads response = Inr (Some []))
   \<and> (map_of q ''question'' = None \<longrightarrow>
        map_of (normalize_one i q) ''question'' = Some (JStr []))
   \<and> (map_of q ''options'' = None \<longrightarrow>
        map_of (normalize_one i q) ''options'' = Some (JArr []))
   \<and> (map_of q ''correct_index'' = None \<and> map_of q ''correctIndex'' = None \<longrightarrow>
        map_of (normalize_one i q) ''correct_index'' = Some (JInt 0))
   \<and> (map_of q ''correct_index'' = None \<and> map_of q ''correctIndex'' = None
        \<and> map_of q ''question'' = Some (JStr s) \<and> \<not> length (strip s) < 15
        \<and> \<not> list_ex (\<lambda>p. sublist p (lower (strip s))) low_quality_patterns
        \<and> map_of q ''options'' = Some (JArr opts) \<and> length opts = 4
        \<and> \<not> list_all short_text opts \<longrightarrow>
        validate_question (normalize_one i q) = Inr True)"
proof -
  have a: "extract_json loads response = Inr (Some qs) \<longrightarrow>
      (\<forall>q\<in>set qs. map fst q = question_keys)"
    by (auto dest: keys_extract_json)
  have b: "normalize_from 0 xs
       = map (\<lambda>(k, x). normalize_one k (object_fields x))
           (filter (\<lambda>(k, x). is_object x) (zip [0 ..< length xs] xs))"
    using normalize_from_enumerate [of 0 xs] by simp
  have c: "loads (strip response) = Inr (JArr xs) \<and> xs \<noteq> [] \<and> \<not> list_ex is_object xs \<longrightarrow>
        extract_json loads response = Inr (Some [])"
    by (simp add: extract_json_def returning_def normalize_from_no_objects)
  have d: "map_of q ''question'' = None \<longrightarrow>
        map_of (normalize_one i q) ''question'' = Some (JStr [])"
    by (simp add: map_of_normalize_one dict_get_def)
  have e: "map_of q ''options'' = None \<longrightarrow>
        map_of (normalize_one i q) ''options'' = Some (JArr [])"
    by (simp add: map_of_normalize_one dict_get_def)
  have f: "map_of q ''correct_index'' = None \<and> map_of q ''correctIndex'' = None \<longrightarrow>
        map_of (normalize_one i q) ''correct_index'' = Some (JInt 0)"
    by (simp add: map_of_normalize_one dict_get_def)
  have g: "map_of q ''correct_index'' = None \<and> map_of q ''correctIndex'' = None
        \<and> map_of q ''question'' = Some (JStr s) \<and> \<not> length (strip s) < 15
        \<and> \<not> list_ex (\<lambda>p. sublist p (lower (strip s))) low_quality_patterns
        \<and> map_of q ''options'' = Some (JArr opts) \<and> length opts = 4
        \<and> \<not> list_all short_text opts \<longrightarrow>
        validate_question (normalize_one i q) = Inr True"
  proof (intro impI, elim conjE)
    assume h: "map_of q ''correct_index'' = None" "map_of q ''correctIndex'' = None"
      "map_of q ''question'' = Some (JStr s)" "\<not> length (strip s) < 15"
      "\<not> list_ex (\<lambda>p. sublist p (lower (strip s))) low_quality_patterns"
      "map_of q ''options'' = Some (JArr opts)" "length opts = 4"
      "\<not> list_all short_text opts"
    let ?n = "normalize_one i q"
    from h have qn: "map_of ?n ''question'' = Some (JStr s)"
      and on: "map_of ?n ''options'' = Some (JArr opts)"
      and idx: "answer_index ?n = Some (JInt 0)"
      by (simp_all add: map_of_normalize_one dict_get_def answer_index_def)
    from h(4) have "s \<noteq> []" by (auto simp add: strip_def rstrip_def lstrip_def)
    from validate_question_text [OF qn this] h on idx
    show "validate_question ?n = Inr True"
      by (simp add: options_rejected_def validate_index_def)
  qed
  from a b c d e f g show ?thesis by blast
qed

theorem parser_output_normalized_witness:
  "extract_json sample_loads doc_no_index = Inr (Some [normalize_one 0 obj_no_index])
   \<and> map_of (normalize_one 0 obj_no_index) ''correct_index'' = Some (JInt 0)
   \<and> validate_question (normalize_one 0 obj_no_index) = Inr True"
proof -
  have a: "extract_json sample_loads doc_no_index = Inr (Some [normalize_one 0 obj_no_index])"
    by code_simp
  have h: "map_of obj_no_index ''correct_index'' = None"
    "map_of obj_no_index ''correctIndex'' = None"
    "map_of obj_no_index ''question'' = Some (JStr ''What is the capital of France?'')"
    "map_of obj_no_index ''options''
       = Some (JArr [JStr ''Rome'', JStr ''Oslo'', JStr ''Paris'', JStr ''Bonn''])"
    "length [JStr ''Rome'', JStr ''Oslo'', JStr ''Paris'', JStr ''Bonn''] = 4"
    "\<not> list_all short_text [JStr ''Rome'', JStr ''Oslo'', JStr ''Paris'', JStr ''Bonn'']"
    by code_simp+
  from parser_output_normalized [of sample_loads doc_no_index "[]" "[]" obj_no_index 0
      "''What is the capital of France?''"
      "[JStr ''Rome'', JStr ''Oslo'', JStr ''Paris'', JStr ''Bonn'']"]
    h france_is_long france_is_clean
  have "map_of (normalize_one 0 obj_no_index) ''correct_index'' = Some (JInt 0)"
    and "validate_question (normalize_one 0 obj_no_index) = Inr True"
    by blast+
  with a show ?thesis by simp
qed

section \<open>The claims about the feedback generator\<close>

lemma split_from_word:
  "\<not> list_ex isspace w \<Longrightarrow> split_from cur (w @ rest) = split_from (rev w @ cur) rest"
  by (induction w arbitrary: cur) simp_all

lemma split_from_words:
  "\<not> list_ex isspace cur \<Longrightarrow> w \<in> set (split_from cur s) \<Longrightarrow> w \<noteq> [] \<and> \<not> list_ex isspace w"
proof (induction s arbitrary: cur)
  case Nil
  then show ?case by (auto simp add: list_ex_iff split: if_splits)
next
  case (Cons c cs)
  show ?case
  proof (cases "isspace c")
    case True
    with Cons.prems have "w = rev cur \<and> cur \<noteq> [] \<or> w \<in> set (split_from [] cs)"
      by (auto split: if_splits)
    then show ?thesis
    proof
      assume "w = rev cur \<and> cur \<noteq> []"
      with Cons.prems(1) show ?thesis by (auto simp add: list_ex_iff)
    next
      assume "w \<in> set (split_from [] cs)"
      with Cons.IH [of "[]"] show ?thesis by simp
    qed
  next
    case False
    with Cons.prems have "w \<in> set (split_from (c # cur) cs)" "\<not> list_ex isspace (c # cur)"
      by simp_all
    with Cons.IH [of "c # cur"] show ?thesis by simp
  qed
qed

lemma split_ws_join_sp:
  "\<forall>w\<in>set ws. w \<noteq> [] \<and> \<not> list_ex isspace w \<Longrightarrow> split_ws (join_sp ws) = ws"
proof (induction ws rule: join_sp.induct)
  case 1
  then show ?case by (simp add: split_ws_def)
next
  case (2 w)
  then have "split_from [] (w @ []) = split_from (rev w @ []) []"
    by (intro split_from_word) simp
  with 2 show ?case by (simp add: split_ws_def)
next
  case (3 w v ws)
  then have w: "w \<noteq> []" "\<not> list_ex isspace w" by simp_all
  have sp: "isspace CHR '' ''" by (simp add: isspace_def)
  have "split_from [] (w @ CHR '' '' # join_sp (v # ws))
      = split_from (rev w @ []) (CHR '' '' # join_sp (v # ws))"
    using w(2) by (rule split_from_word)
  also have "\<dots> = w # split_from [] (join_sp (v # ws))"
    using w(1) sp by simp
  also have "split_from [] (join_sp (v # ws)) = v # ws"
    using 3 by (simp add: split_ws_def)
  finally show ?case by (simp add: split_ws_def)
qed

lemma split_from_spaces:
  "list_all isspace t \<Longrightarrow> split_from cur t = (if cur = [] then [] else [rev cur])"
  by (induction t arbitrary: cur) auto

lemma split_from_append_spaces:
  "list_all isspace t \<Longrightarrow> split_from cur (s @ t) = split_from cur s"
  by (induction s arbitrary: cur) (simp_all add: split_from_spaces)

lemma split_from_lstrip: "split_from [] (dropWhile isspace s) = split_from [] s"
  by (induction s) simp_all

lemma split_ws_strip: "split_ws (strip s) = split_ws s"
proof -
  let ?l = "dropWhile isspace s"
  have "?l = rev (dropWhile isspace (rev ?l)) @ rev (takeWhile isspace (rev ?l))"
    by (metis rev_append rev_rev_ident takeWhile_dropWhile_id)
  moreover have "list_all isspace (rev (takeWhile isspace (rev ?l)))"
    by (simp add: list_all_iff) (metis set_takeWhileD)
  ultimately have "split_from [] ?l = split_from [] (rev (dropWhile isspace (rev ?l)))"
    by (metis split_from_append_spaces)
  then show ?thesis
    by (simp add: split_ws_def strip_def rstrip_def lstrip_def split_from_lstrip)
qed

lemma words_of_split_ws:
  "w \<in> set (split_ws s) \<Longrightarrow> w \<noteq> [] \<and> \<not> list_ex isspace w"
  unfolding split_ws_def by (rule split_from_words) simp_all

lemma shorten_feedback_eq:
  "shorten_feedback response
     = join_sp (take 50 (split_ws (strip_chars [CHR ''\"'', CHR 0x27] (strip response))))"
  by (simp add: shorten_feedback_def Let_def)

lemma split_ws_shorten_feedback:
  "split_ws (shorten_feedback response)
     = take 50 (split_ws (strip_chars [CHR ''\"'', CHR 0x27] (strip response)))"
  unfolding shorten_feedback_eq
  by (rule split_ws_join_sp) (auto dest: in_set_takeD words_of_split_ws)

text \<open>A quotient of absolute value at most one is within the range of the floats.\<close>

lemma round_half_even_bound: "\<bar>of_int (round_half_even m) :: rat\<bar> \<le> \<bar>m\<bar> + 1"
proof -
  have "round_half_even m = \<lfloor>m\<rfloor> \<or> round_half_even m = \<lfloor>m\<rfloor> + 1"
    by (simp add: round_half_even_def Let_def)
  moreover have "of_int \<lfloor>m\<rfloor> \<le> m" "m < of_int \<lfloor>m\<rfloor> + 1" by linarith+
  ultimately show ?thesis by (auto simp add: abs_le_iff) linarith+
qed

lemma pow2_pos: "0 < pow2 k"
  by (simp add: pow2_def)

lemma pow2_le_one: "k \<le> 0 \<Longrightarrow> pow2 k \<le> 1"
  by (simp add: pow2_def)

lemma ilog2_small:
  assumes "0 < x" "x \<le> 1"
  shows "ilog2 x \<le> 0"
proof -
  obtain p q where pq: "quotient_of x = (p, q)" by (cases "quotient_of x")
  then have q: "0 < q" and x: "x = of_int p / of_int q"
    by (simp_all add: quotient_of_denom_pos quotient_of_div)
  from assms x q have "0 < p" "p \<le> q"
    by (simp_all add: zero_less_divide_iff divide_le_eq)
  then have "nat p \<le> nat q" by simp
  then have "floorlog 2 (nat p) \<le> floorlog 2 (nat q)" by (rule floorlog_mono)
  then have "bitlen p - bitlen q \<le> 0" by (simp add: bitlen_def)
  then show ?thesis by (simp add: ilog2_def pq Let_def)
qed

lemma round64_small:
  assumes "\<bar>x\<bar> \<le> 1"
  shows "\<bar>round64 x\<bar> \<le> 2"
proof (cases "x = 0")
  case True
  then show ?thesis by (simp add: round64_def)
next
  case False
  define quantum where "quantum = pow2 (max (ilog2 \<bar>x\<bar>) (- 1022) - 52)"
  from False assms have "ilog2 \<bar>x\<bar> \<le> 0" by (intro ilog2_small) simp_all
  then have "max (ilog2 \<bar>x\<bar>) (- 1022) - 52 \<le> 0" by simp
  then have le: "quantum \<le> 1" unfolding quantum_def by (rule pow2_le_one)
  have pos: "0 < quantum" unfolding quantum_def by (rule pow2_pos)
  have "\<bar>round64 x\<bar> = \<bar>of_int (round_half_even (x / quantum)) :: rat\<bar> * quantum"
    using False pos by (simp add: round64_def quantum_def Let_def abs_mult)
  also have "\<dots> \<le> (\<bar>x / quantum\<bar> + 1) * quantum"
    using round_half_even_bound [of "x / quantum"] pos by (simp add: mult_right_mono)
  also have "\<dots> = \<bar>x\<bar> + quantum"
    using pos by (simp add: field_simps abs_divide)
  finally show ?thesis using assms le by linarith
qed

lemma pow2_1024_large: "2 < pow2 1024"
proof -
  have "(2::rat) = 2 ^ 1" by simp
  also have "\<dots> < 2 ^ 1024" by (rule power_strict_increasing) simp_all
  finally show ?thesis by (simp add: pow2_def)
qed

lemma percentage_of_defined:
  assumes "\<bar>score\<bar> \<le> total' \<or> total' \<le> 0"
  shows "\<exists>p. percentage_of score total' = Inr p"
proof (cases "0 < total'")
  case False
  then show ?thesis by (simp add: percentage_of_def)
next
  case True
  with assms have s: "\<bar>score\<bar> \<le> total'" by simp
  have "\<bar>of_int score / of_int total' :: rat\<bar> = of_int \<bar>score\<bar> / of_int total'"
    using True by (simp add: abs_divide)
  also have "\<dots> \<le> 1" using True s by (simp add: divide_le_eq)
  finally have "\<bar>round64 (of_int score / of_int total')\<bar> \<le> 2" by (rule round64_small)
  with pow2_1024_large have "\<not> pow2 1024 \<le> \<bar>round64 (of_int score / of_int total')\<bar>"
    by linarith
  with True show ?thesis by (simp add: percentage_of_def py_truediv_def Let_def)
qed

end
